theory Spec2Isabelle
  imports Complex_Main "HOL-Library.Multiset"
begin

section \<open>Numbers\<close>

text \<open>
  The embedding follows \<^verbatim>\<open>RoutingService\<close> (the routing half of
  \<^verbatim>\<open>src/services/orderService.ts\<close>), the tracking handler of
  \<^verbatim>\<open>src/api/routes.ts\<close> and the models of \<^verbatim>\<open>prisma/schema.prisma\<close>.

  A JavaScript number is a finite double, one of the two infinities or \<^verbatim>\<open>NaN\<close>.
  A finite double is represented by its value; signed zeros are not distinguished.
\<close>

datatype jsnum = Num real | PosInf | NegInf | NaN

text \<open>
  The floating-point arithmetic of the runtime, which is not part of the sources, is a
  parameter of every function that computes with numbers: \<open>rnd\<close> is the rounding of the
  exact result of an operation on finite operands to a double (an infinity on overflow),
  \<open>Math_PI\<close> the constant \<^verbatim>\<open>Math.PI\<close>, \<open>Math_sin\<close> and \<open>Math_cos\<close> the library's
  sine and cosine of a finite double, and \<open>Math_atan2\<close> its arc tangent of two operands
  that are numbers. What the language fixes for the other operands is written out below.
\<close>

record Fpu =
  rnd :: "real \<Rightarrow> jsnum"
  Math_PI :: real
  Math_sin :: "real \<Rightarrow> real"
  Math_cos :: "real \<Rightarrow> real"
  Math_atan2 :: "jsnum \<Rightarrow> jsnum \<Rightarrow> jsnum"

fun js_add :: "Fpu \<Rightarrow> jsnum \<Rightarrow> jsnum \<Rightarrow> jsnum" where
  "js_add fl (Num a) (Num b) = rnd fl (a + b)"
| "js_add fl (Num a) PosInf = PosInf"
| "js_add fl (Num a) NegInf = NegInf"
| "js_add fl PosInf (Num b) = PosInf"
| "js_add fl NegInf (Num b) = NegInf"
| "js_add fl PosInf PosInf = PosInf"
| "js_add fl NegInf NegInf = NegInf"
| "js_add fl _ _ = NaN"

fun js_sub :: "Fpu \<Rightarrow> jsnum \<Rightarrow> jsnum \<Rightarrow> jsnum" where
  "js_sub fl (Num a) (Num b) = rnd fl (a - b)"
| "js_sub fl (Num a) PosInf = NegInf"
| "js_sub fl (Num a) NegInf = PosInf"
| "js_sub fl PosInf (Num b) = PosInf"
| "js_sub fl NegInf (Num b) = NegInf"
| "js_sub fl PosInf NegInf = PosInf"
| "js_sub fl NegInf PosInf = NegInf"
| "js_sub fl _ _ = NaN"

fun js_mul :: "Fpu \<Rightarrow> jsnum \<Rightarrow> jsnum \<Rightarrow> jsnum" where
  "js_mul fl (Num a) (Num b) = rnd fl (a * b)"
| "js_mul fl (Num a) PosInf = (if a = 0 then NaN else if 0 < a then PosInf else NegInf)"
| "js_mul fl (Num a) NegInf = (if a = 0 then NaN else if 0 < a then NegInf else PosInf)"
| "js_mul fl PosInf (Num b) = (if b = 0 then NaN else if 0 < b then PosInf else NegInf)"
| "js_mul fl NegInf (Num b) = (if b = 0 then NaN else if 0 < b then NegInf else PosInf)"
| "js_mul fl PosInf PosInf = PosInf"
| "js_mul fl PosInf NegInf = NegInf"
| "js_mul fl NegInf PosInf = NegInf"
| "js_mul fl NegInf NegInf = PosInf"
| "js_mul fl _ _ = NaN"

fun js_div :: "Fpu \<Rightarrow> jsnum \<Rightarrow> jsnum \<Rightarrow> jsnum" where
  "js_div fl (Num a) (Num b) =
     (if b \<noteq> 0 then rnd fl (a / b)
      else if a = 0 then NaN else if 0 < a then PosInf else NegInf)"
| "js_div fl (Num a) PosInf = Num 0"
| "js_div fl (Num a) NegInf = Num 0"
| "js_div fl PosInf (Num b) = (if 0 \<le> b then PosInf else NegInf)"
| "js_div fl NegInf (Num b) = (if 0 \<le> b then NegInf else PosInf)"
| "js_div fl _ _ = NaN"

text \<open>\<^verbatim>\<open>Math.sqrt\<close>: \<^verbatim>\<open>NaN\<close> on a negative number.\<close>

fun js_sqrt :: "Fpu \<Rightarrow> jsnum \<Rightarrow> jsnum" where
  "js_sqrt fl (Num a) = (if a < 0 then NaN else rnd fl (sqrt a))"
| "js_sqrt fl PosInf = PosInf"
| "js_sqrt fl _ = NaN"

text \<open>\<^verbatim>\<open>Math.sin\<close> and \<^verbatim>\<open>Math.cos\<close>: \<^verbatim>\<open>NaN\<close> on an infinity and on
  \<^verbatim>\<open>NaN\<close>.\<close>

fun js_sin :: "Fpu \<Rightarrow> jsnum \<Rightarrow> jsnum" where
  "js_sin fl (Num a) = Num (Math_sin fl a)"
| "js_sin fl _ = NaN"

fun js_cos :: "Fpu \<Rightarrow> jsnum \<Rightarrow> jsnum" where
  "js_cos fl (Num a) = Num (Math_cos fl a)"
| "js_cos fl _ = NaN"

text \<open>\<^verbatim>\<open>Math.atan2\<close>: \<^verbatim>\<open>NaN\<close> when either operand is \<^verbatim>\<open>NaN\<close>.\<close>

definition js_atan2 :: "Fpu \<Rightarrow> jsnum \<Rightarrow> jsnum \<Rightarrow> jsnum" where
  "js_atan2 fl y x = (if y = NaN \<or> x = NaN then NaN else Math_atan2 fl y x)"

text \<open>\<^verbatim>\<open>Math.round\<close>: the nearest integer, a half rounded up.\<close>

fun js_round :: "jsnum \<Rightarrow> jsnum" where
  "js_round (Num a) = Num (of_int \<lfloor>a + 1 / 2\<rfloor>)"
| "js_round x = x"

text \<open>The comparisons: every comparison with \<^verbatim>\<open>NaN\<close> is false.\<close>

fun js_lt :: "jsnum \<Rightarrow> jsnum \<Rightarrow> bool" where
  "js_lt (Num a) (Num b) = (a < b)"
| "js_lt (Num a) PosInf = True"
| "js_lt NegInf (Num b) = True"
| "js_lt NegInf PosInf = True"
| "js_lt _ _ = False"

definition js_gt :: "jsnum \<Rightarrow> jsnum \<Rightarrow> bool" where
  "js_gt x y = js_lt y x"

text \<open>Strict equality of numbers: \<^verbatim>\<open>NaN\<close> is not equal to itself.\<close>

definition js_eq :: "jsnum \<Rightarrow> jsnum \<Rightarrow> bool" where
  "js_eq x y = (x \<noteq> NaN \<and> x = y)"

definition js_le :: "jsnum \<Rightarrow> jsnum \<Rightarrow> bool" where
  "js_le x y = (js_lt x y \<or> js_eq x y)"

text \<open>Truthiness of a number: 0 and \<^verbatim>\<open>NaN\<close> are falsy.\<close>

fun js_truthy :: "jsnum \<Rightarrow> bool" where
  "js_truthy (Num a) = (a \<noteq> 0)"
| "js_truthy NaN = False"
| "js_truthy _ = True"

text \<open>A decimal literal of the source denotes the double nearest to it.\<close>

definition literal :: "Fpu \<Rightarrow> real \<Rightarrow> jsnum" where
  "literal fl x = rnd fl x"

section \<open>Data model of the routing service\<close>

record RouteWaypoint =
  latitude :: real
  longitude :: real
  address :: "string option"
  estimatedArrival :: "int option"

record RouteOptimizationRequest =
  origin :: RouteWaypoint
  destination :: RouteWaypoint
  waypoints :: "RouteWaypoint list option"
  vehicleType :: string
  trafficModel :: "string option"
  departureTime :: "int option"

text \<open>
  \<^verbatim>\<open>OptimizedRoute.waypoints\<close> is the field \<open>routeWaypoints\<close> here, since the
  request record already owns the selector \<open>waypoints\<close>.
\<close>

record OptimizedRoute =
  path :: "RouteWaypoint list"
  totalDistance :: jsnum
  estimatedDuration :: jsnum
  estimatedFuelCost :: jsnum
  estimatedTollCost :: jsnum
  trafficConditions :: string
  routeWaypoints :: "RouteWaypoint list"

section \<open>Geodesic distance\<close>

definition toRadians :: "Fpu \<Rightarrow> jsnum \<Rightarrow> jsnum" where
  "toRadians fl degrees = js_mul fl degrees (js_div fl (Num (Math_PI fl)) (Num 180))"

definition calculateDistance :: "Fpu \<Rightarrow> RouteWaypoint \<Rightarrow> RouteWaypoint \<Rightarrow> jsnum" where
  "calculateDistance fl point1 point2 =
     (let R = Num 6371;
          dLat = toRadians fl (js_sub fl (Num (latitude point2)) (Num (latitude point1)));
          dLon = toRadians fl (js_sub fl (Num (longitude point2)) (Num (longitude point1)));
          a = js_add fl
                (js_mul fl (js_sin fl (js_div fl dLat (Num 2)))
                           (js_sin fl (js_div fl dLat (Num 2))))
                (js_mul fl
                   (js_mul fl
                      (js_mul fl (js_cos fl (toRadians fl (Num (latitude point1))))
                                 (js_cos fl (toRadians fl (Num (latitude point2)))))
                      (js_sin fl (js_div fl dLon (Num 2))))
                   (js_sin fl (js_div fl dLon (Num 2))));
          c = js_mul fl (Num 2)
                (js_atan2 fl (js_sqrt fl a) (js_sqrt fl (js_sub fl (Num 1) a)))
      in js_mul fl R c)"

section \<open>Tour planner\<close>

text \<open>
  The inner \<^verbatim>\<open>for\<close> loop of \<^verbatim>\<open>solveTSP\<close>: the state is
  \<open>(nearest, nearestIndex, minDistance)\<close> and \<open>i\<close> runs up to the length of the list.
\<close>

function nearestLoop ::
  "Fpu \<Rightarrow> RouteWaypoint \<Rightarrow> RouteWaypoint list \<Rightarrow> nat \<Rightarrow> RouteWaypoint \<times> nat \<times> jsnum
     \<Rightarrow> RouteWaypoint \<times> nat \<times> jsnum" where
  "nearestLoop fl current unvisited i (nearest, nearestIndex, minDistance) =
     (if i < length unvisited then
        (let distance = calculateDistance fl current (unvisited ! i) in
         if js_lt distance minDistance
         then nearestLoop fl current unvisited (i + 1) (unvisited ! i, i, distance)
         else nearestLoop fl current unvisited (i + 1) (nearest, nearestIndex, minDistance))
      else (nearest, nearestIndex, minDistance))"
  by pat_completeness auto
termination
  by (relation "measure (\<lambda>(fl, current, unvisited, i, s). length unvisited - i)") auto

declare nearestLoop.simps [simp del]

text \<open>\<^verbatim>\<open>unvisited.splice(nearestIndex, 1)\<close>: an index past the end removes nothing.\<close>

definition splice1 :: "'a list \<Rightarrow> nat \<Rightarrow> 'a list" where
  "splice1 xs i = take i xs @ drop (Suc i) xs"

definition selectNearest ::
  "Fpu \<Rightarrow> RouteWaypoint \<Rightarrow> RouteWaypoint list \<Rightarrow> RouteWaypoint \<times> nat \<times> jsnum" where
  "selectNearest fl current unvisited =
     nearestLoop fl current unvisited 1
       (unvisited ! 0, 0, calculateDistance fl current (unvisited ! 0))"

lemma nearestLoop_index:
  "ni < length u \<Longrightarrow> n = u ! ni \<Longrightarrow> nearestLoop fl c u i (n, ni, d) = (n', ni', d')
     \<Longrightarrow> ni' < length u \<and> n' = u ! ni'"
proof (induction fl c u i "(n, ni, d)" arbitrary: n ni d rule: nearestLoop.induct)
  case (1 fl current unvisited i nearest nearestIndex minDistance)
  show ?case
  proof (cases "i < length unvisited")
    case False
    with "1.prems"(3) have "nearest = n'" "nearestIndex = ni'"
      by (simp_all add: nearestLoop.simps [of fl current unvisited i])
    with "1.prems"(1,2) show ?thesis by simp
  next
    case True
    show ?thesis
    proof (cases "js_lt (calculateDistance fl current (unvisited ! i)) minDistance")
      case lt: True
      from "1.prems"(3) True lt
      have "nearestLoop fl current unvisited (i + 1)
              (unvisited ! i, i, calculateDistance fl current (unvisited ! i)) = (n', ni', d')"
        by (simp add: nearestLoop.simps [of fl current unvisited i])
      with "1.hyps"(1) [OF True refl lt True refl] show ?thesis by simp
    next
      case ge: False
      from "1.prems"(3) True ge
      have "nearestLoop fl current unvisited (i + 1) (nearest, nearestIndex, minDistance)
              = (n', ni', d')"
        by (simp add: nearestLoop.simps [of fl current unvisited i])
      with "1.hyps"(2) [OF True refl ge "1.prems"(1) "1.prems"(2)] show ?thesis by simp
    qed
  qed
qed

lemma selectNearest_index:
  assumes "u \<noteq> []" and "selectNearest fl c u = (n', ni', d')"
  shows "ni' < length u \<and> n' = u ! ni'"
  using assms
    nearestLoop_index [of 0 u "u ! 0" fl c 1 "calculateDistance fl c (u ! 0)" n' ni' d']
  by (simp add: selectNearest_def)

lemma selectNearest_shrinks:
  assumes "u \<noteq> []" and "(n, ni, d) = selectNearest fl c u"
  shows "length (splice1 u ni) < length u"
proof -
  from assms have "ni < length u"
    using selectNearest_index [of u fl c n ni d] by simp
  then show ?thesis by (simp add: splice1_def)
qed

function solveTSP_loop ::
  "Fpu \<Rightarrow> RouteWaypoint \<Rightarrow> RouteWaypoint list \<Rightarrow> RouteWaypoint list \<Rightarrow> RouteWaypoint list" where
  "solveTSP_loop fl current unvisited result =
     (if length unvisited > 0 then
        (case selectNearest fl current unvisited of
           (nearest, nearestIndex, minDistance) \<Rightarrow>
             solveTSP_loop fl nearest (splice1 unvisited nearestIndex) (result @ [nearest]))
      else result)"
  by pat_completeness auto
termination
  by (relation "measure (\<lambda>(fl, current, unvisited, result). length unvisited)")
     (auto intro: selectNearest_shrinks)

declare solveTSP_loop.simps [simp del]

definition solveTSP :: "Fpu \<Rightarrow> RouteWaypoint \<Rightarrow> RouteWaypoint list \<Rightarrow> RouteWaypoint list" where
  "solveTSP fl origin' points = solveTSP_loop fl origin' points []"

section \<open>Cost model\<close>

definition fuelPrices :: "(string \<times> real) list" where
  "fuelPrices =
     [(''MOTORCYCLE'', 0.05), (''CAR'', 0.08), (''VAN'', 0.12),
      (''TRUCK_SMALL'', 0.15), (''TRUCK_MEDIUM'', 0.20), (''TRUCK_LARGE'', 0.25)]"

text \<open>
  The property names every object literal inherits: under such a key the lookup
  \<^verbatim>\<open>fuelPrices[vehicleType]\<close> yields a function or an object, which is truthy and
  which the multiplication converts to \<^verbatim>\<open>NaN\<close>.
\<close>

definition inheritedKeys :: "string list" where
  "inheritedKeys =
     [''constructor'', ''hasOwnProperty'', ''isPrototypeOf'', ''propertyIsEnumerable'',
      ''toLocaleString'', ''toString'', ''valueOf'', ''__proto__'', ''__defineGetter__'',
      ''__defineSetter__'', ''__lookupGetter__'', ''__lookupSetter__'']"

definition calculateFuelCost :: "Fpu \<Rightarrow> jsnum \<Rightarrow> string \<Rightarrow> jsnum" where
  "calculateFuelCost fl distance vehicleType' =
     js_mul fl distance
       (case map_of fuelPrices vehicleType' of
          Some price \<Rightarrow> literal fl price
        | None \<Rightarrow> if vehicleType' \<in> set inheritedKeys then NaN else literal fl 0.10)"

text \<open>
  \<^verbatim>\<open>Array.prototype.reduce\<close> with the callback's index argument; \<open>index\<close> is the
  position of the head of the list that is still to be visited.
\<close>

fun reduceIndexed :: "('b \<Rightarrow> 'a \<Rightarrow> nat \<Rightarrow> 'b) \<Rightarrow> 'a list \<Rightarrow> nat \<Rightarrow> 'b \<Rightarrow> 'b" where
  "reduceIndexed f [] index total' = total'"
| "reduceIndexed f (point # rest) index total' =
     reduceIndexed f rest (index + 1) (f total' point index)"

definition estimateTollCost :: "Fpu \<Rightarrow> RouteWaypoint list \<Rightarrow> jsnum" where
  "estimateTollCost fl path' =
     (let distance =
            reduceIndexed
              (\<lambda>total point index.
                 if index = 0 then Num 0
                 else js_add fl total (calculateDistance fl (path' ! (index - 1)) point))
              path' 0 (Num 0)
      in if js_gt distance (Num 50) then js_mul fl distance (literal fl 0.02) else Num 0)"

section \<open>Errors\<close>

text \<open>
  \<^verbatim>\<open>createError(message, statusCode)\<close> comes from
  \<^verbatim>\<open>middleware/errorHandler\<close>, which is not among the sources; its callers only rely
  on the error carrying the message and the status code it was built from. \<open>TypeError\<close>
  is the runtime's exception for a property read on \<^verbatim>\<open>undefined\<close>;
  \<open>RecordNotFound\<close> and \<open>ValidationError\<close> are the record store's failures of an update
  whose key matches no record, and of an update with a value that a column cannot hold.
\<close>

datatype Exn =
  AppError (message: string) (statusCode: nat) | TypeError | RecordNotFound | ValidationError

definition createError :: "string \<Rightarrow> nat \<Rightarrow> Exn" where
  "createError msg code = AppError msg code"

section \<open>Route providers\<close>

record LatLng =
  lat :: real
  lng :: real

text \<open>
  The parts of a directions response of the first provider that the service reads, and the
  \<open>end_location\<close> of a step, which the response carries and the service never reads.
\<close>

record GoogleStep =
  start_location :: LatLng
  end_location :: LatLng

record GoogleLeg =
  steps :: "GoogleStep list"
  distance_value :: real
  duration_value :: real
  duration_in_traffic :: "real option"

type_synonym GoogleResponse = "GoogleLeg list list"

record MapboxRoute =
  geometry_coordinates :: "(real \<times> real) list"
  mapbox_distance :: real
  mapbox_duration :: real

text \<open>
  The environment of the service: the two credentials read from the process environment and
  the answers of the two external providers (\<open>None\<close> when the HTTP call fails); a response
  is the list \<^verbatim>\<open>response.data.routes\<close>.
\<close>

record Env =
  googleMapsApiKey :: "string option"
  mapboxToken :: "string option"
  googleDirections :: "RouteOptimizationRequest \<Rightarrow> GoogleResponse option"
  mapboxDirections :: "RouteOptimizationRequest \<Rightarrow> MapboxRoute list option"

text \<open>Truthiness of an optional string: \<^verbatim>\<open>undefined\<close> and the empty string are falsy.\<close>

fun truthy :: "string option \<Rightarrow> bool" where
  "truthy None = False"
| "truthy (Some s) = (s \<noteq> [])"

text \<open>\<^verbatim>\<open>request.waypoints || []\<close>\<close>

fun orEmpty :: "'a list option \<Rightarrow> 'a list" where
  "orEmpty None = []"
| "orEmpty (Some xs) = xs"

definition parseGoogleMapsPath :: "GoogleLeg list \<Rightarrow> RouteWaypoint list" where
  "parseGoogleMapsPath legs =
     foldl (\<lambda>path' leg.
              foldl (\<lambda>path'' step.
                       path'' @ [\<lparr>latitude = lat (start_location step),
                                  longitude = lng (start_location step),
                                  address = None, estimatedArrival = None\<rparr>])
                    path' (steps leg))
           [] legs"

definition parseMapboxPath :: "(real \<times> real) list \<Rightarrow> RouteWaypoint list" where
  "parseMapboxPath coordinates =
     map (\<lambda>coord. \<lparr>latitude = snd coord, longitude = fst coord,
                    address = None, estimatedArrival = None\<rparr>) coordinates"

definition getGoogleMapsRoute ::
  "Fpu \<Rightarrow> Env \<Rightarrow> RouteOptimizationRequest \<Rightarrow> Exn + OptimizedRoute" where
  "getGoogleMapsRoute fl env request =
     (case googleDirections env request of
        None \<Rightarrow> Inl (createError ''Failed to get route from Google Maps'' 500)
      | Some [] \<Rightarrow> Inl (createError ''Failed to get route from Google Maps'' 500)
      | Some (legs # _) \<Rightarrow>
          Inr \<lparr>path = parseGoogleMapsPath legs,
               totalDistance =
                 js_div fl (foldl (\<lambda>sum leg. js_add fl sum (Num (distance_value leg)))
                                  (Num 0) legs)
                           (Num 1000),
               estimatedDuration =
                 js_div fl (foldl (\<lambda>sum leg. js_add fl sum (Num (duration_value leg)))
                                  (Num 0) legs)
                           (Num 60),
               estimatedFuelCost = Num 0,
               estimatedTollCost = Num 0,
               trafficConditions =
                 (case legs of
                    leg # _ \<Rightarrow> (if duration_in_traffic leg \<noteq> None then ''real-time'' else ''estimated'')
                  | [] \<Rightarrow> ''estimated''),
               routeWaypoints = orEmpty (waypoints request)\<rparr>)"

definition getMapboxRoute ::
  "Fpu \<Rightarrow> Env \<Rightarrow> RouteOptimizationRequest \<Rightarrow> Exn + OptimizedRoute" where
  "getMapboxRoute fl env request =
     (case mapboxDirections env request of
        None \<Rightarrow> Inl (createError ''Failed to get route from Mapbox'' 500)
      | Some [] \<Rightarrow> Inl (createError ''Failed to get route from Mapbox'' 500)
      | Some (route # _) \<Rightarrow>
          Inr \<lparr>path = parseMapboxPath (geometry_coordinates route),
               totalDistance = js_div fl (Num (mapbox_distance route)) (Num 1000),
               estimatedDuration = js_div fl (Num (mapbox_duration route)) (Num 60),
               estimatedFuelCost = Num 0,
               estimatedTollCost = Num 0,
               trafficConditions = ''estimated'',
               routeWaypoints = orEmpty (waypoints request)\<rparr>)"

definition getBasicRoute :: "Fpu \<Rightarrow> RouteOptimizationRequest \<Rightarrow> OptimizedRoute" where
  "getBasicRoute fl request =
     (let distance = calculateDistance fl (origin request) (destination request);
          estimatedSpeed = Num 50;
          duration = js_mul fl (js_div fl distance estimatedSpeed) (Num 60)
      in \<lparr>path = [origin request] @ orEmpty (waypoints request) @ [destination request],
          totalDistance = distance,
          estimatedDuration = duration,
          estimatedFuelCost = Num 0,
          estimatedTollCost = Num 0,
          trafficConditions = ''estimated'',
          routeWaypoints = orEmpty (waypoints request)\<rparr>)"

definition getExternalRoute ::
  "Fpu \<Rightarrow> Env \<Rightarrow> RouteOptimizationRequest \<Rightarrow> Exn + OptimizedRoute" where
  "getExternalRoute fl env request =
     (if truthy (googleMapsApiKey env) then getGoogleMapsRoute fl env request
      else if truthy (mapboxToken env) then getMapboxRoute fl env request
      else Inr (getBasicRoute fl request))"

section \<open>Route engine\<close>

definition calculateOptimalRoute ::
  "Fpu \<Rightarrow> Env \<Rightarrow> RouteOptimizationRequest \<Rightarrow> Exn + OptimizedRoute" where
  "calculateOptimalRoute fl env request =
     (case getExternalRoute fl env request of
        Inl error \<Rightarrow> Inl (createError ''Failed to calculate optimal route'' 500)
      | Inr routeData \<Rightarrow>
          (let fuelCost = calculateFuelCost fl (totalDistance routeData) (vehicleType request);
               tollCost = estimateTollCost fl (path routeData)
           in Inr \<lparr>path = path routeData,
                   totalDistance = totalDistance routeData,
                   estimatedDuration = estimatedDuration routeData,
                   estimatedFuelCost = fuelCost,
                   estimatedTollCost = tollCost,
                   trafficConditions = trafficConditions routeData,
                   routeWaypoints = routeWaypoints routeData\<rparr>))"

subsection \<open>The record store\<close>

datatype RouteStatus = PLANNED | IN_PROGRESS | COMPLETED | CANCELLED

text \<open>
  The columns of the models \<^verbatim>\<open>Route\<close>, \<^verbatim>\<open>Transporter\<close> and
  \<^verbatim>\<open>TrackingData\<close> of the schema that the service reads or writes, each under the
  prefix of its model. \<^verbatim>\<open>estimatedDuration\<close> and \<^verbatim>\<open>actualDuration\<close> are
  \<^verbatim>\<open>Int\<close> columns, the other numbers of a route are \<^verbatim>\<open>Float\<close> columns, kept
  here as the numbers written to them. Times are numbers.
\<close>

record Route =
  route_id :: string
  route_orderId :: string
  route_transporterId :: string
  route_optimizedPath :: "RouteWaypoint list"
  route_estimatedDuration :: int
  route_actualDuration :: "int option"
  route_distance :: jsnum
  route_fuelCost :: "jsnum option"
  route_tollCost :: "jsnum option"
  route_status :: RouteStatus
  route_updatedAt :: int

record Transporter =
  transporter_vehicleType :: string
  transporter_currentLocation :: "LatLng option"

record TrackingData =
  tracking_transporterId :: string
  tracking_orderId :: "string option"
  tracking_latitude :: real
  tracking_longitude :: real
  tracking_timestamp :: int

record Db =
  routes :: "string \<rightharpoonup> Route"
  transporters :: "string \<rightharpoonup> Transporter"
  trackingData :: "TrackingData list"

text \<open>
  The \<^verbatim>\<open>data\<close> of an update of a route: the fields the call names, with the numbers
  as the service passes them.
\<close>

record RouteData =
  set_status :: "RouteStatus option"
  set_updatedAt :: "int option"
  set_actualDuration :: "jsnum option"
  set_optimizedPath :: "RouteWaypoint list option"
  set_estimatedDuration :: "jsnum option"
  set_distance :: "jsnum option"
  set_fuelCost :: "jsnum option"
  set_tollCost :: "jsnum option"

definition noData :: RouteData where
  "noData =
     \<lparr>set_status = None, set_updatedAt = None, set_actualDuration = None,
      set_optimizedPath = None, set_estimatedDuration = None, set_distance = None,
      set_fuelCost = None, set_tollCost = None\<rparr>"

text \<open>
  The record store is the Prisma client over PostgreSQL, which is not part of the sources;
  it is modelled from the schema. An \<^verbatim>\<open>Int\<close> column holds a whole number of 32
  bits: the store refuses any other number for it.
\<close>

fun fitsInt :: "jsnum \<Rightarrow> bool" where
  "fitsInt (Num x) = (x = of_int \<lfloor>x\<rfloor> \<and> - 2147483648 \<le> x \<and> x \<le> 2147483647)"
| "fitsInt _ = False"

fun intOf :: "jsnum \<Rightarrow> int" where
  "intOf (Num x) = \<lfloor>x\<rfloor>"
| "intOf _ = 0"

definition validData :: "RouteData \<Rightarrow> bool" where
  "validData data =
     ((case set_actualDuration data of None \<Rightarrow> True | Some x \<Rightarrow> fitsInt x) \<and>
      (case set_estimatedDuration data of None \<Rightarrow> True | Some x \<Rightarrow> fitsInt x))"

definition applyData :: "RouteData \<Rightarrow> Route \<Rightarrow> Route" where
  "applyData data route =
     route
       \<lparr>route_status := (case set_status data of None \<Rightarrow> route_status route | Some x \<Rightarrow> x),
        route_updatedAt :=
          (case set_updatedAt data of None \<Rightarrow> route_updatedAt route | Some x \<Rightarrow> x),
        route_actualDuration :=
          (case set_actualDuration data of
             None \<Rightarrow> route_actualDuration route | Some x \<Rightarrow> Some (intOf x)),
        route_optimizedPath :=
          (case set_optimizedPath data of None \<Rightarrow> route_optimizedPath route | Some x \<Rightarrow> x),
        route_estimatedDuration :=
          (case set_estimatedDuration data of
             None \<Rightarrow> route_estimatedDuration route | Some x \<Rightarrow> intOf x),
        route_distance :=
          (case set_distance data of None \<Rightarrow> route_distance route | Some x \<Rightarrow> x),
        route_fuelCost :=
          (case set_fuelCost data of None \<Rightarrow> route_fuelCost route | Some x \<Rightarrow> Some x),
        route_tollCost :=
          (case set_tollCost data of None \<Rightarrow> route_tollCost route | Some x \<Rightarrow> Some x)\<rparr>"

text \<open>
  \<^verbatim>\<open>prisma.route.update({ where: { id }, data })\<close>: the update of the record with
  that id. It fails when the data holds a number that its column refuses, and when there
  is no record with that id.
\<close>

definition route_update :: "Db \<Rightarrow> string \<Rightarrow> RouteData \<Rightarrow> Exn + Route \<times> Db" where
  "route_update db routeId data =
     (if \<not> validData data then Inl ValidationError
      else case routes db routeId of
             None \<Rightarrow> Inl RecordNotFound
           | Some route \<Rightarrow>
               Inr (applyData data route,
                    db\<lparr>routes := (routes db)(routeId \<mapsto> applyData data route)\<rparr>))"

subsection \<open>Status updates\<close>

text \<open>
  \<^verbatim>\<open>if (actualDuration)\<close>: an absent argument, the number 0 and \<^verbatim>\<open>NaN\<close> are
  falsy. \<open>now\<close> is the value of \<^verbatim>\<open>new Date()\<close>. The result pairs what the caller
  receives with the store after the call.
\<close>

definition updateRouteStatus ::
  "Db \<Rightarrow> int \<Rightarrow> string \<Rightarrow> RouteStatus \<Rightarrow> jsnum option \<Rightarrow> (Exn + Route) \<times> Db" where
  "updateRouteStatus db now routeId status actualDuration =
     (let updateData = noData\<lparr>set_status := Some status, set_updatedAt := Some now\<rparr>;
          updateData' =
            (case actualDuration of
               None \<Rightarrow> updateData
             | Some duration \<Rightarrow>
                 if js_truthy duration
                 then updateData\<lparr>set_actualDuration := Some duration\<rparr>
                 else updateData)
      in case route_update db routeId updateData' of
           Inr (route, db') \<Rightarrow> (Inr route, db')
         | Inl error \<Rightarrow> (Inl (createError ''Failed to update route status'' 500), db))"

definition getRouteById :: "Db \<Rightarrow> string \<Rightarrow> Exn + Route" where
  "getRouteById db routeId =
     (case routes db routeId of
        None \<Rightarrow> Inl (createError ''Route not found'' 404)
      | Some route \<Rightarrow> Inr route)"

subsection \<open>Recalculation\<close>

text \<open>The \<^verbatim>\<open>for\<close> loop of \<^verbatim>\<open>getRemainingWaypoints\<close>, with state
  \<open>(closestIndex, minDistance)\<close>.\<close>

function closestLoop ::
  "Fpu \<Rightarrow> RouteWaypoint list \<Rightarrow> RouteWaypoint \<Rightarrow> nat \<Rightarrow> nat \<times> jsnum \<Rightarrow> nat \<times> jsnum" where
  "closestLoop fl originalPath currentLocation i (closestIndex, minDistance) =
     (if i < length originalPath then
        (let distance = calculateDistance fl currentLocation (originalPath ! i) in
         if js_lt distance minDistance
         then closestLoop fl originalPath currentLocation (i + 1) (i, distance)
         else closestLoop fl originalPath currentLocation (i + 1) (closestIndex, minDistance))
      else (closestIndex, minDistance))"
  by pat_completeness auto
termination
  by (relation "measure (\<lambda>(fl, originalPath, currentLocation, i, s). length originalPath - i)")
     auto

declare closestLoop.simps [simp del]

text \<open>
  On an empty path \<^verbatim>\<open>originalPath[0]\<close> is \<^verbatim>\<open>undefined\<close> and reading its
  latitude raises a \<^verbatim>\<open>TypeError\<close>.
\<close>

definition getRemainingWaypoints ::
  "Fpu \<Rightarrow> RouteWaypoint list \<Rightarrow> RouteWaypoint \<Rightarrow> Exn + RouteWaypoint list" where
  "getRemainingWaypoints fl originalPath currentLocation =
     (case originalPath of
        [] \<Rightarrow> Inl TypeError
      | first # _ \<Rightarrow>
          (case closestLoop fl originalPath currentLocation 1
                  (0, calculateDistance fl currentLocation first) of
             (closestIndex, minDistance) \<Rightarrow> Inr (drop (closestIndex + 1) originalPath)))"

text \<open>The body of the \<^verbatim>\<open>try\<close> block of \<^verbatim>\<open>recalculateRoute\<close>.\<close>

definition recalculateRoute_try ::
  "Fpu \<Rightarrow> Env \<Rightarrow> Db \<Rightarrow> int \<Rightarrow> string \<Rightarrow> RouteWaypoint \<Rightarrow> Exn + OptimizedRoute \<times> Db" where
  "recalculateRoute_try fl env db now routeId currentLocation =
     (case getRouteById db routeId of
        Inl error \<Rightarrow> Inl error
      | Inr route \<Rightarrow>
     (case getRemainingWaypoints fl (route_optimizedPath route) currentLocation of
        Inl error \<Rightarrow> Inl error
      | Inr remainingWaypoints \<Rightarrow>
     if length remainingWaypoints = 0 then Inl (createError ''Route already completed'' 400)
     else
     (case transporters db (route_transporterId route) of
        None \<Rightarrow> Inl TypeError
      | Some transporter \<Rightarrow>
     (let request = \<lparr>origin = currentLocation,
                     destination = remainingWaypoints ! (length remainingWaypoints - 1),
                     waypoints = Some (butlast remainingWaypoints),
                     vehicleType = transporter_vehicleType transporter,
                     trafficModel = None,
                     departureTime = None\<rparr>
      in case calculateOptimalRoute fl env request of
           Inl error \<Rightarrow> Inl error
         | Inr newRoute \<Rightarrow>
     (case route_update db routeId
             (noData\<lparr>set_optimizedPath := Some (path newRoute),
                      set_estimatedDuration := Some (estimatedDuration newRoute),
                      set_distance := Some (totalDistance newRoute),
                      set_fuelCost := Some (estimatedFuelCost newRoute),
                      set_tollCost := Some (estimatedTollCost newRoute),
                      set_updatedAt := Some now\<rparr>) of
        Inl error \<Rightarrow> Inl error
      | Inr (updated, db') \<Rightarrow> Inr (newRoute, db'))))))"

text \<open>The \<^verbatim>\<open>catch\<close> block: whatever was thrown is replaced by one error.\<close>

definition recalculateRoute ::
  "Fpu \<Rightarrow> Env \<Rightarrow> Db \<Rightarrow> int \<Rightarrow> string \<Rightarrow> RouteWaypoint \<Rightarrow> (Exn + OptimizedRoute) \<times> Db" where
  "recalculateRoute fl env db now routeId currentLocation =
     (case recalculateRoute_try fl env db now routeId currentLocation of
        Inr (newRoute, db') \<Rightarrow> (Inr newRoute, db')
      | Inl error \<Rightarrow> (Inl (createError ''Failed to recalculate route'' 500), db))"

subsection \<open>Progress tracking\<close>

text \<open>
  \<^verbatim>\<open>Math.min(...distances)\<close>: \<^verbatim>\<open>NaN\<close> when one of the numbers is
  \<^verbatim>\<open>NaN\<close>, the least of them otherwise, and infinity for no number at all.
\<close>

definition js_min2 :: "jsnum \<Rightarrow> jsnum \<Rightarrow> jsnum" where
  "js_min2 x y = (if x = NaN \<or> y = NaN then NaN else if js_lt y x then y else x)"

definition mathMin :: "jsnum list \<Rightarrow> jsnum" where
  "mathMin xs = foldl js_min2 PosInf xs"

text \<open>
  \<^verbatim>\<open>Array.prototype.indexOf\<close>: the first position whose element is strictly equal to
  the value, or \<open>-1\<close>.
\<close>

fun indexOfFrom :: "jsnum list \<Rightarrow> jsnum \<Rightarrow> nat \<Rightarrow> int" where
  "indexOfFrom [] v i = - 1"
| "indexOfFrom (x # xs) v i = (if js_eq x v then int i else indexOfFrom xs v (i + 1))"

definition indexOf :: "jsnum list \<Rightarrow> jsnum \<Rightarrow> int" where
  "indexOf xs v = indexOfFrom xs v 0"

text \<open>The distance the tracking handler computes inline for each point of the path.\<close>

definition trackingDistance :: "Fpu \<Rightarrow> TrackingData \<Rightarrow> RouteWaypoint \<Rightarrow> jsnum" where
  "trackingDistance fl currentLocation point =
     (let R = Num 6371;
          dLat = js_mul fl
                   (js_sub fl (Num (latitude point)) (Num (tracking_latitude currentLocation)))
                   (js_div fl (Num (Math_PI fl)) (Num 180));
          dLon = js_mul fl
                   (js_sub fl (Num (longitude point)) (Num (tracking_longitude currentLocation)))
                   (js_div fl (Num (Math_PI fl)) (Num 180));
          a = js_add fl
                (js_mul fl (js_sin fl (js_div fl dLat (Num 2)))
                           (js_sin fl (js_div fl dLat (Num 2))))
                (js_mul fl
                   (js_mul fl
                      (js_mul fl
                         (js_cos fl (js_mul fl (Num (tracking_latitude currentLocation))
                                       (js_div fl (Num (Math_PI fl)) (Num 180))))
                         (js_cos fl (js_mul fl (Num (latitude point))
                                       (js_div fl (Num (Math_PI fl)) (Num 180)))))
                      (js_sin fl (js_div fl dLon (Num 2))))
                   (js_sin fl (js_div fl dLon (Num 2))))
      in js_mul fl
           (js_mul fl (Num 2) (js_atan2 fl (js_sqrt fl a) (js_sqrt fl (js_sub fl (Num 1) a))))
           R)"

text \<open>
  \<^verbatim>\<open>trackingData.findMany\<close> for the route's transporter and order, newest first, one
  row taken: the matching row with the greatest timestamp.
\<close>

definition latestTracking :: "Db \<Rightarrow> Route \<Rightarrow> TrackingData option" where
  "latestTracking db route =
     (case filter (\<lambda>t. tracking_transporterId t = route_transporterId route \<and>
                        tracking_orderId t = Some (route_orderId route))
                  (trackingData db) of
        [] \<Rightarrow> None
      | t # ts \<Rightarrow>
          Some (foldl (\<lambda>best u. if tracking_timestamp best < tracking_timestamp u then u else best)
                      t ts))"

text \<open>
  The progress of the tracking handler; the branch is taken when a tracked location
  exists and the path is not empty.
\<close>

definition computeProgress :: "Fpu \<Rightarrow> TrackingData option \<Rightarrow> RouteWaypoint list \<Rightarrow> jsnum" where
  "computeProgress fl currentLocation routePath =
     (case currentLocation of
        None \<Rightarrow> Num 0
      | Some location \<Rightarrow>
          if length routePath > 0 then
            (let distances = map (trackingDistance fl location) routePath;
                 closestPointIndex = indexOf distances (mathMin distances)
             in js_round
                  (js_mul fl
                     (js_div fl (Num (of_int closestPointIndex))
                                (Num (of_int (int (length routePath) - 1))))
                     (Num 100)))
          else Num 0)"

record TrackingInfo =
  data_route :: Route
  data_currentLocation :: "TrackingData option"
  data_progress :: jsnum
  data_estimatedTimeRemaining :: jsnum
  data_lastUpdate :: "int option"

definition trackingHandler :: "Fpu \<Rightarrow> Db \<Rightarrow> string \<Rightarrow> Exn + TrackingInfo" where
  "trackingHandler fl db routeId =
     (case getRouteById db routeId of
        Inl error \<Rightarrow> Inl error
      | Inr route \<Rightarrow>
          (let currentLocation = latestTracking db route;
               routePath = route_optimizedPath route;
               progress = computeProgress fl currentLocation routePath
           in Inr \<lparr>data_route = route,
                   data_currentLocation = currentLocation,
                   data_progress = progress,
                   data_estimatedTimeRemaining =
                     js_mul fl (Num (of_int (route_estimatedDuration route)))
                               (js_sub fl (Num 1) (js_div fl progress (Num 100))),
                   data_lastUpdate = map_option tracking_timestamp currentLocation\<rparr>))"

section \<open>Arithmetic instances\<close>

text \<open>
  The ideal arithmetic: no rounding, the mathematical constant and functions. The arc
  tangent of two reals is the angle of the point \<open>(x, y)\<close> in \<open>(-\<pi>, \<pi>]\<close>.
\<close>

definition atan2 :: "real \<Rightarrow> real \<Rightarrow> real" where
  "atan2 y x =
     (if 0 < x then arctan (y / x)
      else if x < 0 \<and> 0 \<le> y then arctan (y / x) + pi
      else if x < 0 \<and> y < 0 then arctan (y / x) - pi
      else if 0 < y then pi / 2
      else if y < 0 then - (pi / 2)
      else 0)"

fun atan2_num :: "jsnum \<Rightarrow> jsnum \<Rightarrow> jsnum" where
  "atan2_num (Num y) (Num x) = Num (atan2 y x)"
| "atan2_num _ _ = NaN"

definition exactFpu :: Fpu where
  "exactFpu =
     \<lparr>rnd = Num, Math_PI = pi, Math_sin = sin, Math_cos = cos, Math_atan2 = atan2_num\<rparr>"

text \<open>
  The arithmetic of doubles where the distance from \<open>(-12, 0)\<close> to \<open>(12, 180)\<close> needs
  it: the correctly rounded results of the operations whose exact result is not a double
  (the quotient \<^verbatim>\<open>Math.PI / 180\<close>, its products with 24, 180, -12 and 12, the two
  products of sines and cosines and their sum), the value of \<^verbatim>\<open>Math.PI\<close>, and the
  sines and cosines of the library at the three angles. Elsewhere it is the ideal
  arithmetic.
\<close>

definition antipodeDoubles :: Fpu where
  "antipodeDoubles =
     \<lparr>rnd =
        (\<lambda>x. if x = 176855943800711 / 10133099161583616
                then Num (5030569068109113 / 288230376151711744)
              else if x = 15091707204327339 / 36028797018963968
                then Num (3772926801081835 / 9007199254740992)
              else if x = 226375608064910085 / 72057594037927936
                then Num (884279719003555 / 281474976710656)
              else if x = - (15091707204327339 / 72057594037927936)
                then Num (- (3772926801081835 / 18014398509481984))
              else if x = 15091707204327339 / 72057594037927936
                then Num (3772926801081835 / 18014398509481984)
              else if x = 14028051521512174526173589570329 / 324518553658426726783156020576256
                then Num (3114853157962155 / 72057594037927936)
              else if x = 4737709078016885151862745089 / 4951760157141521099596496896
                then Num (2154460652498931 / 2251799813685248)
              else if x = 72057594037927947 / 72057594037927936
                then Num (4503599627370497 / 4503599627370496)
              else Num x),
      Math_PI = 884279719003555 / 281474976710656,
      Math_sin =
        (\<lambda>x. if x = 3772926801081835 / 18014398509481984
                then 3745404053171323 / 18014398509481984
              else if x = 884279719003555 / 562949953421312 then 1
              else sin x),
      Math_cos =
        (\<lambda>x. if x = 3772926801081835 / 18014398509481984
                then 68831018284033 / 70368744177664
              else if x = - (3772926801081835 / 18014398509481984)
                then 68831018284033 / 70368744177664
              else cos x),
      Math_atan2 = atan2_num\<rparr>"

text \<open>A waypoint as a request body gives it: coordinates and no further fields.\<close>

definition wp :: "real \<Rightarrow> real \<Rightarrow> RouteWaypoint" where
  "wp la lo = \<lparr>latitude = la, longitude = lo, address = None, estimatedArrival = None\<rparr>"

section \<open>Properties\<close>

subsection \<open>Numbers\<close>

lemma js_le_NaN: "\<not> js_le x NaN" "\<not> js_le NaN x"
  by (simp_all add: js_le_def js_eq_def)

lemma js_le_refl: "x \<noteq> NaN \<Longrightarrow> js_le x x"
  by (simp add: js_le_def js_eq_def)

lemma js_lt_imp_le: "js_lt x y \<Longrightarrow> js_le x y"
  by (simp add: js_le_def)

lemma js_not_lt: "x \<noteq> NaN \<Longrightarrow> y \<noteq> NaN \<Longrightarrow> \<not> js_lt x y \<Longrightarrow> js_le y x"
  by (cases x; cases y; auto simp: js_le_def js_eq_def)

lemma js_lt_le_trans: "js_lt x y \<Longrightarrow> js_le y z \<Longrightarrow> js_lt x z"
  by (cases x; cases y; cases z; auto simp: js_le_def js_eq_def)

lemma js_lt_not_le: "js_lt x y \<Longrightarrow> \<not> js_le y x"
  by (cases x; cases y; auto simp: js_le_def js_eq_def)

lemma js_le_neq_lt: "js_le x y \<Longrightarrow> x \<noteq> y \<Longrightarrow> js_lt x y"
  by (auto simp: js_le_def js_eq_def)

lemma js_mul_commute: "js_mul fl x y = js_mul fl y x"
  by (cases x; cases y; simp add: mult.commute)

lemma js_mul_NaN: "js_mul fl x NaN = NaN" "js_mul fl NaN x = NaN"
  by (cases x; simp)+

subsection \<open>Tour planner\<close>

text \<open>
  The specification's reading of one step of the nearest-neighbour heuristic: position
  \<open>k\<close> holds a stop of minimum distance from the current position, and every stop before
  it in the input order is strictly farther.
\<close>

definition nearestFirst :: "Fpu \<Rightarrow> RouteWaypoint \<Rightarrow> RouteWaypoint list \<Rightarrow> nat \<Rightarrow> bool" where
  "nearestFirst fl current unvisited k \<longleftrightarrow>
     k < length unvisited \<and>
     (\<forall>q \<in> set unvisited.
        js_le (calculateDistance fl current (unvisited ! k)) (calculateDistance fl current q)) \<and>
     (\<forall>q \<in> set (take k unvisited).
        js_lt (calculateDistance fl current (unvisited ! k)) (calculateDistance fl current q))"

lemma splice1_mset: "i < length xs \<Longrightarrow> add_mset (xs ! i) (mset (splice1 xs i)) = mset xs"
proof -
  assume "i < length xs"
  then have "xs = take i xs @ xs ! i # drop (Suc i) xs" by (simp add: id_take_nth_drop)
  then have "mset xs = mset (take i xs @ xs ! i # drop (Suc i) xs)" by simp
  then show ?thesis by (simp add: splice1_def)
qed

lemma solveTSP_loop_Nil: "solveTSP_loop fl c [] r = r"
  by (simp add: solveTSP_loop.simps [of fl c "[]" r])

lemma solveTSP_loop_step:
  "u \<noteq> [] \<Longrightarrow> selectNearest fl c u = (n, k, d)
     \<Longrightarrow> solveTSP_loop fl c u r = solveTSP_loop fl n (splice1 u k) (r @ [n])"
  by (simp add: solveTSP_loop.simps [of fl c u r])

lemma solveTSP_loop_mset: "mset (solveTSP_loop fl c u r) = mset r + mset u"
proof (induction fl c u r rule: solveTSP_loop.induct)
  case (1 fl current unvisited result)
  show ?case
  proof (cases "unvisited = []")
    case True
    then show ?thesis by (simp add: solveTSP_loop_Nil)
  next
    case False
    obtain n ni d where sel: "selectNearest fl current unvisited = (n, ni, d)"
      by (cases "selectNearest fl current unvisited") auto
    from selectNearest_index [OF False sel]
    have ni: "ni < length unvisited" and n: "n = unvisited ! ni"
      by simp_all
    from False have pos: "0 < length unvisited" by simp
    have "solveTSP_loop fl current unvisited result
            = solveTSP_loop fl n (splice1 unvisited ni) (result @ [n])"
      using False sel by (rule solveTSP_loop_step)
    also have "mset \<dots> = mset (result @ [n]) + mset (splice1 unvisited ni)"
      using "1.IH" [OF pos sel [symmetric] refl] .
    also have "\<dots> = mset result + mset unvisited"
      using splice1_mset [OF ni] n by simp
    finally show ?thesis .
  qed
qed

text \<open>
  Claim C6: for every origin and every finite sequence of stops, \<open>solveTSP\<close> returns a
  permutation of exactly the input stops: the same multiset, nothing added and nothing
  left out. This holds in every arithmetic, whatever the comparisons of distances give.
\<close>

theorem solveTSP_permutation: "mset (solveTSP fl origin' points) = mset points"
  by (simp add: solveTSP_def solveTSP_loop_mset)

lemma solveTSP_loop_acc: "solveTSP_loop fl c u (r @ s) = r @ solveTSP_loop fl c u s"
proof (induction fl c u s arbitrary: r rule: solveTSP_loop.induct)
  case (1 fl current unvisited result)
  show ?case
  proof (cases "unvisited = []")
    case True
    then show ?thesis by (simp add: solveTSP_loop_Nil)
  next
    case False
    obtain n ni d where sel: "selectNearest fl current unvisited = (n, ni, d)"
      by (cases "selectNearest fl current unvisited") auto
    from False have pos: "0 < length unvisited" by simp
    have "solveTSP_loop fl current unvisited (r @ result)
            = solveTSP_loop fl n (splice1 unvisited ni) (r @ (result @ [n]))"
      using solveTSP_loop_step [OF False sel, of "r @ result"] by simp
    also have "\<dots> = r @ solveTSP_loop fl n (splice1 unvisited ni) (result @ [n])"
      using "1.IH" [OF pos sel [symmetric] refl] .
    also have "\<dots> = r @ solveTSP_loop fl current unvisited result"
      using solveTSP_loop_step [OF False sel, of result] by simp
    finally show ?thesis .
  qed
qed

lemma solveTSP_step:
  assumes "u \<noteq> []" and "selectNearest fl c u = (n, k, d)"
  shows "solveTSP fl c u = u ! k # solveTSP fl (u ! k) (splice1 u k)"
proof -
  from selectNearest_index [OF assms] have n: "n = u ! k" by simp
  have "solveTSP fl c u = solveTSP_loop fl n (splice1 u k) ([n] @ [])"
    using solveTSP_loop_step [OF assms, of "[]"] by (simp add: solveTSP_def)
  also have "\<dots> = [n] @ solveTSP_loop fl n (splice1 u k) []"
    by (rule solveTSP_loop_acc)
  finally show ?thesis using n by (simp add: solveTSP_def)
qed

lemma solveTSP_single: "solveTSP fl c [x] = [x]"
proof -
  have "mset (solveTSP fl c [x]) = {#x#}" by (simp add: solveTSP_def solveTSP_loop_mset)
  then show ?thesis by (simp add: mset_single_iff_right)
qed

text \<open>A distance that is not a number is never beaten: the loop keeps it.\<close>

lemma nearestLoop_NaN: "nearestLoop fl c u i (n, k, NaN) = (n, k, NaN)"
proof (induction "length u - i" arbitrary: i)
  case 0
  then show ?case by (simp add: nearestLoop.simps [of fl c u i])
next
  case (Suc m)
  then have "m = length u - (i + 1)" and "i < length u" by simp_all
  with Suc.hyps(1) [of "i + 1"] show ?case
    by (simp add: nearestLoop.simps [of fl c u i])
qed

lemma solveTSP_first_NaN:
  assumes "calculateDistance fl current p = NaN"
  shows "solveTSP fl current (p # rest) = p # solveTSP fl p rest"
proof -
  have "selectNearest fl current (p # rest) = (p, 0, NaN)"
    using assms by (simp add: selectNearest_def nearestLoop_NaN)
  from solveTSP_step [OF _ this] show ?thesis by (simp add: splice1_def)
qed

lemma nearestLoop_min:
  assumes "\<forall>j<length u. calculateDistance fl c (u ! j) \<noteq> NaN"
    and "ni < i" and "i \<le> length u" and "d = calculateDistance fl c (u ! ni)"
    and "\<forall>j<i. js_le d (calculateDistance fl c (u ! j))"
    and "\<forall>j<ni. js_lt d (calculateDistance fl c (u ! j))"
    and "nearestLoop fl c u i (n, ni, d) = (n', ni', d')"
  shows "d' = calculateDistance fl c (u ! ni') \<and>
         (\<forall>j<length u. js_le d' (calculateDistance fl c (u ! j))) \<and>
         (\<forall>j<ni'. js_lt d' (calculateDistance fl c (u ! j)))"
  using assms
proof (induction fl c u i "(n, ni, d)" arbitrary: n ni d rule: nearestLoop.induct)
  case (1 fl current unvisited i nearest nearestIndex minDistance)
  show ?case
  proof (cases "i < length unvisited")
    case False
    with "1.prems"(7) have "nearestIndex = ni'" "minDistance = d'"
      by (simp_all add: nearestLoop.simps [of fl current unvisited i])
    moreover from False "1.prems"(3) have "i = length unvisited" by simp
    ultimately show ?thesis using "1.prems"(4,5,6) by simp
  next
    case True
    let ?x = "calculateDistance fl current (unvisited ! i)"
    from True "1.prems"(1) have x: "?x \<noteq> NaN" by simp
    from "1.prems"(1,2,3,4) have m: "minDistance \<noteq> NaN" by simp
    show ?thesis
    proof (cases "js_lt ?x minDistance")
      case lt: True
      from "1.prems"(7) True lt
      have run: "nearestLoop fl current unvisited (i + 1) (unvisited ! i, i, ?x) = (n', ni', d')"
        by (simp add: nearestLoop.simps [of fl current unvisited i])
      have a: "\<forall>j<i + 1. js_le ?x (calculateDistance fl current (unvisited ! j))"
      proof (intro allI impI)
        fix j assume "j < i + 1"
        then consider "j < i" | "j = i" by linarith
        then show "js_le ?x (calculateDistance fl current (unvisited ! j))"
        proof cases
          case 1
          with "1.prems"(5) lt show ?thesis by (blast intro: js_lt_imp_le js_lt_le_trans)
        next
          case 2
          with x show ?thesis by (simp add: js_le_refl)
        qed
      qed
      have b: "\<forall>j<i. js_lt ?x (calculateDistance fl current (unvisited ! j))"
        using "1.prems"(5) lt by (blast intro: js_lt_le_trans)
      show ?thesis
        using "1.hyps"(1) [OF True refl lt "1.prems"(1) _ _ refl a b run] True by auto
    next
      case ge: False
      from "1.prems"(7) True ge
      have run: "nearestLoop fl current unvisited (i + 1) (nearest, nearestIndex, minDistance)
                   = (n', ni', d')"
        by (simp add: nearestLoop.simps [of fl current unvisited i])
      from js_not_lt [OF x m ge] have le: "js_le minDistance ?x" .
      have a: "\<forall>j<i + 1. js_le minDistance (calculateDistance fl current (unvisited ! j))"
      proof (intro allI impI)
        fix j assume "j < i + 1"
        then consider "j < i" | "j = i" by linarith
        then show "js_le minDistance (calculateDistance fl current (unvisited ! j))"
          using "1.prems"(5) le by cases auto
      qed
      show ?thesis
        using "1.hyps"(2) [OF True refl ge "1.prems"(1) _ _ "1.prems"(4) a "1.prems"(6) run]
          True "1.prems"(2) by auto
    qed
  qed
qed

lemma selectNearest_nearestFirst:
  assumes "u \<noteq> []" and "\<forall>q \<in> set u. calculateDistance fl c q \<noteq> NaN"
    and "selectNearest fl c u = (n, k, d)"
  shows "nearestFirst fl c u k \<and> n = u ! k \<and> d = calculateDistance fl c (u ! k)"
proof -
  from assms(1) have len: "1 \<le> length u" by (cases u) auto
  from assms(2) have nn: "\<forall>j<length u. calculateDistance fl c (u ! j) \<noteq> NaN" by simp
  have m: "d = calculateDistance fl c (u ! k) \<and>
         (\<forall>j<length u. js_le d (calculateDistance fl c (u ! j))) \<and>
         (\<forall>j<k. js_lt d (calculateDistance fl c (u ! j)))"
  proof (rule nearestLoop_min [of u fl c 0 1 "calculateDistance fl c (u ! 0)" "u ! 0" n k d])
    show "nearestLoop fl c u 1 (u ! 0, 0, calculateDistance fl c (u ! 0)) = (n, k, d)"
      using assms(3) by (simp add: selectNearest_def)
    show "\<forall>j<1. js_le (calculateDistance fl c (u ! 0)) (calculateDistance fl c (u ! j))"
    proof -
      from assms(1) have "0 < length u" by simp
      with nn have "calculateDistance fl c (u ! 0) \<noteq> NaN" by blast
      then show ?thesis by (simp add: js_le_refl)
    qed
  qed (use len nn in simp_all)
  from selectNearest_index [OF assms(1,3)] have k: "k < length u" "n = u ! k" by simp_all
  have "\<forall>q \<in> set u. js_le (calculateDistance fl c (u ! k)) (calculateDistance fl c q)"
    using m by (auto simp: in_set_conv_nth)
  moreover have "\<forall>q \<in> set (take k u).
      js_lt (calculateDistance fl c (u ! k)) (calculateDistance fl c q)"
    using m k by (auto simp: in_set_conv_nth)
  ultimately show ?thesis using k m by (simp add: nearestFirst_def)
qed

lemma nearestFirst_numbers:
  assumes "nearestFirst fl c u k"
  shows "\<forall>q \<in> set u. calculateDistance fl c q \<noteq> NaN"
proof
  fix q assume "q \<in> set u"
  with assms have "js_le (calculateDistance fl c (u ! k)) (calculateDistance fl c q)"
    by (simp add: nearestFirst_def)
  then show "calculateDistance fl c q \<noteq> NaN" by (auto simp: js_le_NaN)
qed

lemma nearestFirst_unique:
  assumes "nearestFirst fl c u k" and "nearestFirst fl c u k'"
  shows "k' = k"
proof -
  have no: "\<not> i < j" if "nearestFirst fl c u i" "nearestFirst fl c u j" for i j
  proof
    assume "i < j"
    moreover from that have "j < length u" by (simp add: nearestFirst_def)
    ultimately have "u ! i \<in> set (take j u)"
      by (auto simp: in_set_conv_nth intro!: exI [of _ i])
    with that(2) have "js_lt (calculateDistance fl c (u ! j)) (calculateDistance fl c (u ! i))"
      by (simp add: nearestFirst_def)
    moreover from that(1) \<open>j < length u\<close>
    have "js_le (calculateDistance fl c (u ! i)) (calculateDistance fl c (u ! j))"
      by (simp add: nearestFirst_def)
    ultimately show False by (simp add: js_lt_not_le)
  qed
  from no [OF assms] no [OF assms(2) assms(1)] show ?thesis by simp
qed

lemma selectNearest_of_nearestFirst:
  assumes "nearestFirst fl c u k"
  shows "\<exists>d. selectNearest fl c u = (u ! k, k, d)"
proof -
  from assms have ne: "u \<noteq> []" by (auto simp: nearestFirst_def)
  obtain n k' d where sel: "selectNearest fl c u = (n, k', d)"
    by (cases "selectNearest fl c u") auto
  from selectNearest_nearestFirst [OF ne nearestFirst_numbers [OF assms] sel]
  have "nearestFirst fl c u k'" and "n = u ! k'" by simp_all
  with nearestFirst_unique [OF assms, of k'] sel show ?thesis by simp
qed

lemma solveTSP_nearest_first:
  assumes "nearestFirst fl c u k"
  shows "solveTSP fl c u = u ! k # solveTSP fl (u ! k) (splice1 u k)"
proof -
  from assms have ne: "u \<noteq> []" by (auto simp: nearestFirst_def)
  from selectNearest_of_nearestFirst [OF assms] obtain d where
    "selectNearest fl c u = (u ! k, k, d)" by blast
  from solveTSP_step [OF ne this] show ?thesis .
qed

subsection \<open>The distance between near-antipodal points\<close>

text \<open>
  In doubles the haversine term \<open>a\<close> of the two points is \<open>1 + 2\<^sup>-\<^sup>5\<^sup>2\<close>, the double
  1.0000000000000002: \<open>1 - a\<close> is negative, its square root is \<^verbatim>\<open>NaN\<close>, and so
  is the distance.
\<close>

lemma toRadians_antipode:
  "toRadians antipodeDoubles (Num 24) = Num (3772926801081835 / 9007199254740992)"
  "toRadians antipodeDoubles (Num 180) = Num (884279719003555 / 281474976710656)"
  "toRadians antipodeDoubles (Num (- 12)) = Num (- (3772926801081835 / 18014398509481984))"
  "toRadians antipodeDoubles (Num 12) = Num (3772926801081835 / 18014398509481984)"
  by (simp_all add: toRadians_def antipodeDoubles_def)

lemma haversine_antipode:
  "js_add antipodeDoubles
     (js_mul antipodeDoubles
        (js_sin antipodeDoubles (js_div antipodeDoubles (Num (3772926801081835 / 9007199254740992)) (Num 2)))
        (js_sin antipodeDoubles (js_div antipodeDoubles (Num (3772926801081835 / 9007199254740992)) (Num 2))))
     (js_mul antipodeDoubles
        (js_mul antipodeDoubles
           (js_mul antipodeDoubles
              (js_cos antipodeDoubles (Num (- (3772926801081835 / 18014398509481984))))
              (js_cos antipodeDoubles (Num (3772926801081835 / 18014398509481984))))
           (js_sin antipodeDoubles (js_div antipodeDoubles (Num (884279719003555 / 281474976710656)) (Num 2))))
        (js_sin antipodeDoubles (js_div antipodeDoubles (Num (884279719003555 / 281474976710656)) (Num 2))))
   = Num (4503599627370497 / 4503599627370496)"
  by (simp add: antipodeDoubles_def)

lemma calculateDistance_antipode:
  "calculateDistance antipodeDoubles (wp (- 12) 0) (wp 12 180) = NaN"
proof -
  have sub: "js_sub antipodeDoubles (Num 12) (Num (- 12)) = Num 24"
    "js_sub antipodeDoubles (Num 180) (Num 0) = Num 180"
    by (simp_all add: antipodeDoubles_def)
  have neg: "js_sqrt antipodeDoubles
               (js_sub antipodeDoubles (Num 1) (Num (4503599627370497 / 4503599627370496))) = NaN"
    by (simp add: antipodeDoubles_def)
  show ?thesis
    unfolding calculateDistance_def Let_def wp_def
    by (simp add: sub toRadians_antipode haversine_antipode neg js_atan2_def js_mul_NaN
             del: js_add.simps js_mul.simps js_div.simps js_sin.simps js_cos.simps js_sub.simps js_sqrt.simps)
qed

subsection \<open>Distances in the ideal arithmetic\<close>

lemma calculateDistance_exact_self: "calculateDistance exactFpu p p = Num 0"
  by (simp add: calculateDistance_def toRadians_def exactFpu_def js_atan2_def atan2_def)

lemma atan2_sin_cos:
  assumes "0 \<le> t" and "t < pi / 2"
  shows "atan2 (sin t) (cos t) = t"
proof -
  have c: "0 < cos t" using assms by (intro cos_gt_zero_pi) auto
  have "arctan (tan t) = t" using assms by (intro arctan_tan) auto
  then show ?thesis using c by (simp add: atan2_def tan_def)
qed

lemma calculateDistance_exact_equator:
  assumes "latitude p = 0" and "latitude q = 0"
    and "0 \<le> longitude q - longitude p" and "longitude q - longitude p < 180"
  shows "calculateDistance exactFpu p q = Num (6371 * ((longitude q - longitude p) * (pi / 180)))"
proof -
  define t where "t = (longitude q - longitude p) * pi / 360"
  have t0: "0 \<le> t" using assms(3) by (simp add: t_def)
  have t1: "t < pi / 2" using assms(4) by (simp add: t_def)
  have s: "0 \<le> sin t" using t0 t1 by (intro sin_ge_zero) auto
  have c: "0 < cos t" using t0 t1 by (intro cos_gt_zero_pi) auto
  have a: "sin t * sin t = (sin t)\<^sup>2" by (simp add: power2_eq_square)
  have cs: "1 - (sin t)\<^sup>2 = (cos t)\<^sup>2" using sin_cos_squared_add [of t] by linarith
  then have b: "sqrt (1 - sin t * sin t) = cos t" using c by (simp add: a)
  have b0: "\<not> 1 - sin t * sin t < 0" using cs a by (metis not_less zero_le_power2)
  have a': "sqrt (sin t * sin t) = sin t" using s by simp
  have a0: "\<not> sin t * sin t < 0" by (simp add: not_less)
  have "calculateDistance exactFpu p q = Num (6371 * (2 * atan2 (sin t) (cos t)))"
    using assms(1,2) a' [unfolded t_def] b [unfolded t_def] a0 [unfolded t_def]
      b0 [unfolded t_def]
    by (simp add: calculateDistance_def Let_def toRadians_def exactFpu_def js_atan2_def t_def)
  also have "\<dots> = Num (6371 * (2 * t))" using atan2_sin_cos [OF t0 t1] by simp
  finally show ?thesis by (simp add: t_def)
qed

lemma calculateDistance_exact_one_degree:
  "calculateDistance exactFpu (wp 0 0) (wp 0 1) = Num (6371 * pi / 180)"
  using calculateDistance_exact_equator [of "wp 0 0" "wp 0 1"] by (simp add: wp_def)

lemma calculateDistance_exact_equator_west:
  assumes "latitude p = 0" and "latitude q = 0"
    and "0 \<le> longitude p - longitude q" and "longitude p - longitude q < 180"
  shows "calculateDistance exactFpu p q = Num (6371 * ((longitude p - longitude q) * (pi / 180)))"
proof -
  define u where "u = (longitude p - longitude q) * pi / 360"
  have u0: "0 \<le> u" using assms(3) by (simp add: u_def)
  have u1: "u < pi / 2" using assms(4) by (simp add: u_def)
  have tu: "(longitude q - longitude p) * pi / 360 = - u"
    by (simp add: u_def algebra_simps diff_divide_distrib)
  have s: "0 \<le> sin u" using u0 u1 by (intro sin_ge_zero) auto
  have c: "0 < cos u" using u0 u1 by (intro cos_gt_zero_pi) auto
  have a: "sin u * sin u = (sin u)\<^sup>2" by (simp add: power2_eq_square)
  have cs: "1 - (sin u)\<^sup>2 = (cos u)\<^sup>2" using sin_cos_squared_add [of u] by linarith
  then have b: "sqrt (1 - sin u * sin u) = cos u" using c by (simp add: a)
  have b0: "\<not> 1 - sin u * sin u < 0" using cs a by (metis not_less zero_le_power2)
  have a': "sqrt (sin u * sin u) = sin u" using s by simp
  have "calculateDistance exactFpu p q = Num (6371 * (2 * atan2 (sin u) (cos u)))"
    using assms(1,2) a' b b0
    by (simp add: calculateDistance_def Let_def toRadians_def exactFpu_def js_atan2_def tu)
  also have "\<dots> = Num (6371 * (2 * u))" using atan2_sin_cos [OF u0 u1] by simp
  finally show ?thesis by (simp add: u_def)
qed

text \<open>The tracked location as a waypoint: the handler's inline distance is
  \<open>calculateDistance\<close> from it.\<close>

definition locationWaypoint :: "TrackingData \<Rightarrow> RouteWaypoint" where
  "locationWaypoint location = wp (tracking_latitude location) (tracking_longitude location)"

lemma trackingDistance_calculateDistance:
  "trackingDistance fl location point = calculateDistance fl (locationWaypoint location) point"
  by (simp add: trackingDistance_def calculateDistance_def toRadians_def Let_def
      locationWaypoint_def wp_def js_mul_commute [of fl _ "Num 6371"])

subsection \<open>Tour planner on distances that are numbers and on one that is not\<close>

lemma solveTSP_numbers:
  assumes "u \<noteq> []" and "\<forall>q \<in> set u. calculateDistance fl c q \<noteq> NaN"
  shows "\<exists>k. nearestFirst fl c u k \<and> (\<forall>k'. nearestFirst fl c u k' \<longrightarrow> k' = k) \<and>
             solveTSP fl c u = u ! k # solveTSP fl (u ! k) (splice1 u k)"
proof -
  obtain n k d where sel: "selectNearest fl c u = (n, k, d)"
    by (cases "selectNearest fl c u") auto
  from selectNearest_nearestFirst [OF assms sel] have nf: "nearestFirst fl c u k" by simp
  then have "\<forall>k'. nearestFirst fl c u k' \<longrightarrow> k' = k" by (blast intro: nearestFirst_unique)
  with nf solveTSP_step [OF assms(1) sel] show ?thesis by blast
qed

lemma solveTSP_two_numbers:
  assumes "calculateDistance fl c a \<noteq> NaN" and "calculateDistance fl c b \<noteq> NaN"
  shows "solveTSP fl c [a, b] =
           (if js_lt (calculateDistance fl c b) (calculateDistance fl c a) then [b, a] else [a, b])"
proof -
  obtain k where nf: "nearestFirst fl c [a, b] k"
    and step: "solveTSP fl c [a, b] = [a, b] ! k # solveTSP fl ([a, b] ! k) (splice1 [a, b] k)"
    using solveTSP_numbers [of "[a, b]" fl c] assms by auto
  from nf have "k = 0 \<or> k = 1" by (auto simp: nearestFirst_def)
  then show ?thesis
  proof
    assume k: "k = 0"
    with nf have "js_le (calculateDistance fl c a) (calculateDistance fl c b)"
      by (simp add: nearestFirst_def)
    then have "\<not> js_lt (calculateDistance fl c b) (calculateDistance fl c a)"
      using js_lt_not_le by blast
    with step k show ?thesis by (simp add: splice1_def solveTSP_single)
  next
    assume k: "k = 1"
    with nf have "js_lt (calculateDistance fl c b) (calculateDistance fl c a)"
      by (simp add: nearestFirst_def)
    with step k show ?thesis by (simp add: splice1_def solveTSP_single)
  qed
qed

text \<open>
  Claim C7: the stop appended next is one of minimum distance from the current position,
  and of two stops the nearer is visited first. The planner does so whenever the distances
  are numbers (\<open>solveTSP_numbers\<close>, \<open>solveTSP_two_numbers\<close>). In doubles the distance from
  \<open>(-12, 0)\<close> to the near-antipodal \<open>(12, 180)\<close> is \<^verbatim>\<open>NaN\<close>, no comparison with
  it holds, and the planner visits that stop before the stop \<open>(-12, 1)\<close>, which is
  one degree of longitude away.
\<close>

theorem solveTSP_antipodal_stop_first:
  "calculateDistance antipodeDoubles (wp (- 12) 0) (wp 12 180) = NaN \<and>
   solveTSP antipodeDoubles (wp (- 12) 0) [wp 12 180, wp (- 12) 1] = [wp 12 180, wp (- 12) 1]"
  using solveTSP_first_NaN [OF calculateDistance_antipode, of "[wp (- 12) 1]"]
  by (simp add: calculateDistance_antipode solveTSP_single)

subsection \<open>Toll cost\<close>

text \<open>The distances of the segments of a path, in order.\<close>

fun segmentDistances :: "Fpu \<Rightarrow> RouteWaypoint list \<Rightarrow> jsnum list" where
  "segmentDistances fl (p # q # rest) = calculateDistance fl p q # segmentDistances fl (q # rest)"
| "segmentDistances fl [p] = []"
| "segmentDistances fl [] = []"

lemma segmentDistances_drop:
  assumes "Suc i < length ps"
  shows "segmentDistances fl (drop i ps) =
         calculateDistance fl (ps ! i) (ps ! Suc i) # segmentDistances fl (drop (Suc i) ps)"
proof -
  from assms have "drop i ps = ps ! i # drop (Suc i) ps" by (simp add: Cons_nth_drop_Suc)
  moreover from assms have "drop (Suc i) ps = ps ! Suc i # drop (Suc (Suc i)) ps"
    by (simp add: Cons_nth_drop_Suc)
  ultimately show ?thesis by simp
qed

lemma reduceIndexed_toll:
  assumes "n = length ps - Suc i" and "Suc i \<le> length ps"
  shows "reduceIndexed
           (\<lambda>total point index.
              if index = 0 then Num 0
              else js_add fl total (calculateDistance fl (ps ! (index - 1)) point))
           (drop (Suc i) ps) (Suc i) t
         = foldl (js_add fl) t (segmentDistances fl (drop i ps))"
  using assms
proof (induction n arbitrary: i t)
  case 0
  then have "length ps = Suc i" by simp
  then have "drop (Suc i) ps = []" and "drop i ps = [ps ! i]"
    by (simp_all add: Cons_nth_drop_Suc [symmetric])
  then show ?case by simp
next
  case (Suc n)
  then have lt: "Suc i < length ps" by simp
  then have d: "drop (Suc i) ps = ps ! Suc i # drop (Suc (Suc i)) ps"
    by (simp add: Cons_nth_drop_Suc)
  from Suc.prems lt have n: "n = length ps - Suc (Suc i)" and le: "Suc (Suc i) \<le> length ps"
    by simp_all
  show ?case
    using Suc.IH [OF n le, of "js_add fl t (calculateDistance fl (ps ! i) (ps ! Suc i))"]
      segmentDistances_drop [OF lt, of fl]
    by (simp add: d)
qed

text \<open>
  The toll is computed from the sum, from left to right, of the distances of the segments:
  it is the sum times the rate when the sum is greater than 50, and 0 in every other case.
\<close>

lemma estimateTollCost_sum:
  "estimateTollCost fl ps =
     (if js_gt (foldl (js_add fl) (Num 0) (segmentDistances fl ps)) (Num 50)
      then js_mul fl (foldl (js_add fl) (Num 0) (segmentDistances fl ps)) (literal fl 0.02)
      else Num 0)"
proof (cases ps)
  case Nil
  then show ?thesis by (simp add: estimateTollCost_def js_gt_def)
next
  case (Cons p rest)
  then have "reduceIndexed
           (\<lambda>total point index.
              if index = 0 then Num 0
              else js_add fl total (calculateDistance fl (ps ! (index - 1)) point))
           ps 0 (Num 0) = foldl (js_add fl) (Num 0) (segmentDistances fl ps)"
    using reduceIndexed_toll [of "length ps - 1" ps 0 fl "Num 0"] by simp
  then show ?thesis by (simp add: estimateTollCost_def Let_def)
qed

lemma foldl_js_add_NaN: "foldl (js_add fl) NaN ds = NaN"
  by (induction ds) simp_all

lemma estimateTollCost_NaN_segment:
  assumes "calculateDistance fl p q = NaN"
  shows "estimateTollCost fl (p # q # rest) = Num 0"
  using assms by (simp add: estimateTollCost_sum foldl_js_add_NaN js_gt_def)

text \<open>
  Claim C5: the toll is 0 when the total of the distances between consecutive points is at
  most 50 km and the total times 0.02 otherwise. The function does so whenever the
  distances are numbers (\<open>estimateTollCost_sum\<close>). In doubles the distance from
  \<open>(-12, 0)\<close> to the near-antipodal \<open>(12, 180)\<close> is \<^verbatim>\<open>NaN\<close>, the comparison
  with 50 fails, and the toll of that path of some 20000 km is 0.
\<close>

theorem estimateTollCost_antipodal_path:
  "calculateDistance antipodeDoubles (wp (- 12) 0) (wp 12 180) = NaN \<and>
   estimateTollCost antipodeDoubles [wp (- 12) 0, wp 12 180] = Num 0"
  using estimateTollCost_NaN_segment [OF calculateDistance_antipode, of "[]"]
  by (simp add: calculateDistance_antipode)

text \<open>A path of two points on the equator, \<open>km\<close> kilometres apart.\<close>

definition equatorPath :: "real \<Rightarrow> RouteWaypoint list" where
  "equatorPath km = [wp 0 0, wp 0 (km / 6371 * 180 / pi)]"

lemma estimateTollCost_exact_equatorPath:
  assumes "0 \<le> km" and "km < 6371 * 2"
  shows "estimateTollCost exactFpu (equatorPath km) = (if 50 < km then Num (km * 0.02) else Num 0)"
proof -
  have "km / 6371 < 2" using assms by simp
  also have "\<dots> \<le> pi" by (rule pi_ge_two)
  finally have "km / 6371 * 180 / pi < 180" by (simp add: field_simps)
  moreover have "0 \<le> km / 6371 * 180 / pi" using assms by simp
  ultimately have "calculateDistance exactFpu (wp 0 0) (wp 0 (km / 6371 * 180 / pi))
      = Num (6371 * (km / 6371 * 180 / pi * (pi / 180)))"
    using calculateDistance_exact_equator [of "wp 0 0" "wp 0 (km / 6371 * 180 / pi)"]
    by (simp add: wp_def)
  then have "calculateDistance exactFpu (wp 0 0) (wp 0 (km / 6371 * 180 / pi)) = Num km"
    by simp
  then show ?thesis
    by (simp add: estimateTollCost_sum equatorPath_def js_gt_def literal_def exactFpu_def)
qed

lemma estimateTollCost_exact_threshold:
  "estimateTollCost exactFpu (equatorPath 49) = Num 0 \<and>
   estimateTollCost exactFpu (equatorPath 51) = Num 1.02"
  using estimateTollCost_exact_equatorPath [of 49] estimateTollCost_exact_equatorPath [of 51]
  by simp

subsection \<open>Fallback route\<close>


text \<open>
  The scenario of the specification: from \<open>(0, 0)\<close> to \<open>(0, 1)\<close> with no waypoints, one
  degree of longitude on the equator.
\<close>

definition exampleRequest :: RouteOptimizationRequest where
  "exampleRequest =
     \<lparr>origin = wp 0 0, destination = wp 0 1, waypoints = None, vehicleType = ''CAR'',
      trafficModel = None, departureTime = None\<rparr>"

lemma getBasicRoute_example:
  "path (getBasicRoute exactFpu exampleRequest) = [wp 0 0, wp 0 1] \<and>
   totalDistance (getBasicRoute exactFpu exampleRequest) = Num (6371 * pi / 180) \<and>
   estimatedDuration (getBasicRoute exactFpu exampleRequest) = Num (6371 * pi / 180 / 50 * 60)"
  by (simp add: getBasicRoute_def Let_def exampleRequest_def calculateDistance_exact_one_degree)
     (simp add: exactFpu_def)

subsection \<open>Determinism of the fallback variant\<close>

text \<open>
  With neither credential configured the result is the fallback route with its two cost
  fields filled in: the answers of the providers, the store and the clock are not read.
\<close>

lemma calculateOptimalRoute_fallback:
  assumes "\<not> truthy (googleMapsApiKey env)" and "\<not> truthy (mapboxToken env)"
  shows "calculateOptimalRoute fl env request =
           Inr ((getBasicRoute fl request)
                  \<lparr>estimatedFuelCost :=
                     calculateFuelCost fl (totalDistance (getBasicRoute fl request))
                       (vehicleType request),
                   estimatedTollCost := estimateTollCost fl (path (getBasicRoute fl request))\<rparr>)"
  using assms by (simp add: calculateOptimalRoute_def getExternalRoute_def Let_def)

text \<open>
  Claim C10: when no external provider is configured, \<open>calculateOptimalRoute\<close> returns
  a route, and two calls with the same request return the same route, in whatever
  environments without credentials they run.
\<close>
theorem calculateOptimalRoute_fallback_deterministic:
  assumes "\<not> truthy (googleMapsApiKey env)" and "\<not> truthy (mapboxToken env)"
    and "\<not> truthy (googleMapsApiKey env')" and "\<not> truthy (mapboxToken env')"
  shows "calculateOptimalRoute fl env request = calculateOptimalRoute fl env' request \<and>
         (\<exists>route. calculateOptimalRoute fl env request = Inr route)"
  using assms by (simp add: calculateOptimalRoute_fallback)

text \<open>
  Two environments without a usable credential (the empty string is falsy) whose providers
  would answer differently.
\<close>

definition fallbackEnv :: Env where
  "fallbackEnv =
     \<lparr>googleMapsApiKey = None, mapboxToken = None,
      googleDirections = (\<lambda>request. None), mapboxDirections = (\<lambda>request. None)\<rparr>"

definition fallbackEnv' :: Env where
  "fallbackEnv' =
     \<lparr>googleMapsApiKey = Some [], mapboxToken = None,
      googleDirections = (\<lambda>request. Some []),
      mapboxDirections =
        (\<lambda>request. Some [\<lparr>geometry_coordinates = [(1, 0)], mapbox_distance = 5,
                               mapbox_duration = 7\<rparr>])\<rparr>"

theorem calculateOptimalRoute_fallback_deterministic_witness:
  "\<not> truthy (googleMapsApiKey fallbackEnv) \<and> \<not> truthy (mapboxToken fallbackEnv) \<and>
   \<not> truthy (googleMapsApiKey fallbackEnv') \<and> \<not> truthy (mapboxToken fallbackEnv') \<and>
   calculateOptimalRoute exactFpu fallbackEnv exampleRequest =
     calculateOptimalRoute exactFpu fallbackEnv' exampleRequest \<and>
   (\<exists>route. calculateOptimalRoute exactFpu fallbackEnv exampleRequest = Inr route)"
proof -
  have k: "\<not> truthy (googleMapsApiKey fallbackEnv)" "\<not> truthy (mapboxToken fallbackEnv)"
    "\<not> truthy (googleMapsApiKey fallbackEnv')" "\<not> truthy (mapboxToken fallbackEnv')"
    by (simp_all add: fallbackEnv_def fallbackEnv'_def)
  from calculateOptimalRoute_fallback_deterministic [OF k, of exactFpu exampleRequest] k
  show ?thesis by blast
qed

subsection \<open>End points of the path\<close>

lemma getBasicRoute_endpoints:
  "hd (path (getBasicRoute fl request)) = origin request \<and>
   last (path (getBasicRoute fl request)) = destination request"
  by (simp add: getBasicRoute_def Let_def)

lemma parseMapboxPath_endpoints:
  assumes "coordinates \<noteq> []"
  shows "hd (parseMapboxPath coordinates) = wp (snd (hd coordinates)) (fst (hd coordinates)) \<and>
         last (parseMapboxPath coordinates) = wp (snd (last coordinates)) (fst (last coordinates))"
  using assms by (simp add: parseMapboxPath_def wp_def hd_map last_map)

text \<open>
  A response of the second provider whose geometry starts and ends a little inside the
  requested end points, as a provider that snaps coordinates to roads returns it.
\<close>

definition mapboxResponse :: MapboxRoute where
  "mapboxResponse =
     \<lparr>geometry_coordinates = [(1 / 1000, 0), (999 / 1000, 0)],
      mapbox_distance = 110972, mapbox_duration = 7990\<rparr>"

definition mapboxEnv :: Env where
  "mapboxEnv =
     \<lparr>googleMapsApiKey = None, mapboxToken = Some ''token'',
      googleDirections = (\<lambda>request. None),
      mapboxDirections = (\<lambda>request. Some [mapboxResponse])\<rparr>"

text \<open>
  Claim C8 as stated, that every variant's path starts with the request's origin and ends
  with its destination, fails for a path parsed from a provider's response: the path is the
  response's geometry and is not compared with the request.
\<close>
theorem provider_path_endpoints_counterexample:
  "map_sum id path (calculateOptimalRoute exactFpu mapboxEnv exampleRequest)
     = Inr [wp 0 (1 / 1000), wp 0 (999 / 1000)] \<and>
   wp 0 (1 / 1000) \<noteq> origin exampleRequest \<and>
   wp 0 (999 / 1000) \<noteq> destination exampleRequest"
  by (simp add: calculateOptimalRoute_def getExternalRoute_def getMapboxRoute_def mapboxEnv_def
      mapboxResponse_def parseMapboxPath_def exampleRequest_def wp_def Let_def)

text \<open>
  Claim C8, amended: the fallback variant's path has the request's origin as its first and
  the request's destination as its last element; a path parsed from the second provider's
  response is that response's geometry point by point, so its first and last elements are
  the geometry's first and last coordinates.
\<close>
theorem route_path_endpoints:
  "(\<not> truthy (googleMapsApiKey env) \<and> \<not> truthy (mapboxToken env) \<longrightarrow>
      (\<exists>route. calculateOptimalRoute fl env request = Inr route \<and>
         hd (path route) = origin request \<and> last (path route) = destination request)) \<and>
   (\<not> truthy (googleMapsApiKey env) \<and> truthy (mapboxToken env) \<and>
    mapboxDirections env request = Some (response # others) \<and>
    geometry_coordinates response \<noteq> [] \<longrightarrow>
      (\<exists>route. calculateOptimalRoute fl env request = Inr route \<and>
         path route = parseMapboxPath (geometry_coordinates response) \<and>
         hd (path route) = wp (snd (hd (geometry_coordinates response)))
                              (fst (hd (geometry_coordinates response))) \<and>
         last (path route) = wp (snd (last (geometry_coordinates response)))
                                (fst (last (geometry_coordinates response)))))"
proof (intro conjI impI)
  assume "\<not> truthy (googleMapsApiKey env) \<and> \<not> truthy (mapboxToken env)"
  then show "\<exists>route. calculateOptimalRoute fl env request = Inr route \<and>
         hd (path route) = origin request \<and> last (path route) = destination request"
    using getBasicRoute_endpoints [of fl request]
    by (simp add: calculateOptimalRoute_fallback)
next
  assume a: "\<not> truthy (googleMapsApiKey env) \<and> truthy (mapboxToken env) \<and>
    mapboxDirections env request = Some (response # others) \<and>
    geometry_coordinates response \<noteq> []"
  then have "\<exists>route. calculateOptimalRoute fl env request = Inr route \<and>
         path route = parseMapboxPath (geometry_coordinates response)"
    by (simp add: calculateOptimalRoute_def getExternalRoute_def getMapboxRoute_def Let_def)
  with a parseMapboxPath_endpoints [of "geometry_coordinates response"]
  show "\<exists>route. calculateOptimalRoute fl env request = Inr route \<and>
         path route = parseMapboxPath (geometry_coordinates response) \<and>
         hd (path route) = wp (snd (hd (geometry_coordinates response)))
                              (fst (hd (geometry_coordinates response))) \<and>
         last (path route) = wp (snd (last (geometry_coordinates response)))
                                (fst (last (geometry_coordinates response)))"
    by auto
qed

theorem route_path_endpoints_witness:
  "\<not> truthy (googleMapsApiKey fallbackEnv) \<and> \<not> truthy (mapboxToken fallbackEnv) \<and>
   (\<exists>route. calculateOptimalRoute exactFpu fallbackEnv exampleRequest = Inr route \<and>
      hd (path route) = origin exampleRequest \<and> last (path route) = destination exampleRequest) \<and>
   \<not> truthy (googleMapsApiKey mapboxEnv) \<and> truthy (mapboxToken mapboxEnv) \<and>
   mapboxDirections mapboxEnv exampleRequest = Some (mapboxResponse # []) \<and>
   geometry_coordinates mapboxResponse \<noteq> [] \<and>
   (\<exists>route. calculateOptimalRoute exactFpu mapboxEnv exampleRequest = Inr route \<and>
      path route = parseMapboxPath (geometry_coordinates mapboxResponse) \<and>
      hd (path route) = wp (snd (hd (geometry_coordinates mapboxResponse)))
                           (fst (hd (geometry_coordinates mapboxResponse))) \<and>
      last (path route) = wp (snd (last (geometry_coordinates mapboxResponse)))
                             (fst (last (geometry_coordinates mapboxResponse))))"
proof -
  have a: "\<not> truthy (googleMapsApiKey fallbackEnv) \<and> \<not> truthy (mapboxToken fallbackEnv)"
    by (simp add: fallbackEnv_def)
  have b: "\<not> truthy (googleMapsApiKey mapboxEnv) \<and> truthy (mapboxToken mapboxEnv) \<and>
    mapboxDirections mapboxEnv exampleRequest = Some (mapboxResponse # []) \<and>
    geometry_coordinates mapboxResponse \<noteq> []"
    by (simp add: mapboxEnv_def mapboxResponse_def)
  from route_path_endpoints [of fallbackEnv exactFpu exampleRequest mapboxResponse "[]"]
       route_path_endpoints [of mapboxEnv exactFpu exampleRequest mapboxResponse "[]"] a b
  show ?thesis by blast
qed

text \<open>
  The path parsed from the first provider's response holds the start of every step and the
  end of none: on a response of one step that leads from the origin to the destination the
  path is the origin alone.
\<close>

lemma foldl_snoc_map: "foldl (\<lambda>acc x. acc @ [f x]) acc xs = acc @ map f xs"
  by (induction xs arbitrary: acc) simp_all

lemma parseGoogleMapsPath_concat:
  "parseGoogleMapsPath legs =
     concat (map (\<lambda>leg. map (\<lambda>step. wp (lat (start_location step)) (lng (start_location step)))
                              (steps leg)) legs)"
proof -
  have "foldl (\<lambda>path' leg.
              foldl (\<lambda>path'' step.
                       path'' @ [wp (lat (start_location step)) (lng (start_location step))])
                    path' (steps leg))
           acc legs
        = acc @ concat (map (\<lambda>leg. map (\<lambda>step. wp (lat (start_location step)) (lng (start_location step)))
                              (steps leg)) legs)" for acc
    by (induction legs arbitrary: acc) (simp_all add: foldl_snoc_map)
  from this [of "[]"] show ?thesis by (simp add: parseGoogleMapsPath_def wp_def)
qed

definition exampleLeg :: GoogleLeg where
  "exampleLeg =
     \<lparr>steps = [\<lparr>start_location = \<lparr>lat = 0, lng = 0\<rparr>, end_location = \<lparr>lat = 0, lng = 1\<rparr>\<rparr>],
      distance_value = 111195, duration_value = 8006, duration_in_traffic = None\<rparr>"

definition googleEnv :: Env where
  "googleEnv =
     \<lparr>googleMapsApiKey = Some ''key'', mapboxToken = None,
      googleDirections = (\<lambda>request. Some [[exampleLeg]]),
      mapboxDirections = (\<lambda>request. None)\<rparr>"

lemma google_path_misses_destination:
  "map_sum id path (calculateOptimalRoute fl googleEnv exampleRequest)
     = Inr [origin exampleRequest] \<and>
   map_sum id (last \<circ> path) (calculateOptimalRoute fl googleEnv exampleRequest)
     \<noteq> Inr (destination exampleRequest)"
  by (simp add: calculateOptimalRoute_def getExternalRoute_def getGoogleMapsRoute_def googleEnv_def
      parseGoogleMapsPath_def exampleLeg_def exampleRequest_def wp_def Let_def)

subsection \<open>Status updates\<close>

text \<open>A duration the update can store: none, or a number the \<^verbatim>\<open>Int\<close> column holds.\<close>

fun storableDuration :: "jsnum option \<Rightarrow> bool" where
  "storableDuration None = True"
| "storableDuration (Some x) = fitsInt x"

lemma updateRouteStatus_found:
  assumes "routes db routeId = Some route" and "storableDuration actualDuration"
  shows "updateRouteStatus db now routeId status actualDuration =
           (let route' = route\<lparr>route_status := status, route_updatedAt := now,
                               route_actualDuration :=
                                 (case actualDuration of
                                    None \<Rightarrow> route_actualDuration route
                                  | Some duration \<Rightarrow>
                                      if js_truthy duration then Some (intOf duration)
                                      else route_actualDuration route)\<rparr>
            in (Inr route', db\<lparr>routes := (routes db)(routeId \<mapsto> route')\<rparr>))"
  using assms
  by (cases actualDuration)
     (simp_all add: updateRouteStatus_def route_update_def Let_def validData_def noData_def
        applyData_def)

text \<open>
  A store with one route \<open>r1\<close> of the given status and path, its transporter and one
  tracked location.
\<close>

definition exampleRoute :: "RouteStatus \<Rightarrow> RouteWaypoint list \<Rightarrow> Route" where
  "exampleRoute status path' =
     \<lparr>route_id = ''r1'', route_orderId = ''o1'', route_transporterId = ''t1'',
      route_optimizedPath = path', route_estimatedDuration = 120,
      route_actualDuration = None, route_distance = Num 100, route_fuelCost = Some (Num 8),
      route_tollCost = Some (Num 2), route_status = status, route_updatedAt = 0\<rparr>"

definition exampleDb :: "RouteStatus \<Rightarrow> RouteWaypoint list \<Rightarrow> Db" where
  "exampleDb status path' =
     \<lparr>routes = [''r1'' \<mapsto> exampleRoute status path'],
      transporters = [''t1'' \<mapsto> \<lparr>transporter_vehicleType = ''CAR'',
                                      transporter_currentLocation = None\<rparr>],
      trackingData = [\<lparr>tracking_transporterId = ''t1'', tracking_orderId = Some ''o1'',
                       tracking_latitude = 0, tracking_longitude = 0,
                       tracking_timestamp = 5\<rparr>]\<rparr>"

text \<open>
  Claim C1 as stated, that an update of a \<open>COMPLETED\<close> route fails and leaves the stored
  status as it was, fails: the update to \<open>PLANNED\<close> succeeds and is stored.
\<close>
theorem updateRouteStatus_completed_counterexample:
  "map_option route_status (routes (exampleDb COMPLETED [wp 0 0, wp 0 1]) ''r1'') = Some COMPLETED \<and>
   map_sum id route_status
     (fst (updateRouteStatus (exampleDb COMPLETED [wp 0 0, wp 0 1]) 1 ''r1'' PLANNED None))
     = Inr PLANNED \<and>
   map_option route_status
     (routes (snd (updateRouteStatus (exampleDb COMPLETED [wp 0 0, wp 0 1]) 1 ''r1'' PLANNED None))
        ''r1'')
     = Some PLANNED"
  by (simp add: updateRouteStatus_def route_update_def exampleDb_def exampleRoute_def Let_def
      validData_def noData_def applyData_def)

text \<open>
  Claim C1, amended: \<open>updateRouteStatus\<close> validates no transition. For every persisted
  route, whatever its status, and every new status, the call with no duration, or with a
  duration the store can hold, succeeds and the stored status becomes the new one: so does
  the update from \<open>PLANNED\<close> to \<open>CANCELLED\<close>, and so does every update of a \<open>COMPLETED\<close> or
  \<open>CANCELLED\<close> route.
\<close>
theorem updateRouteStatus_any_transition:
  assumes "routes db routeId = Some route" and "storableDuration actualDuration"
  shows "\<exists>route'. updateRouteStatus db now routeId status actualDuration =
                    (Inr route', db\<lparr>routes := (routes db)(routeId \<mapsto> route')\<rparr>) \<and>
                  route_status route' = status"
  using updateRouteStatus_found [OF assms] by (simp add: Let_def)

theorem updateRouteStatus_any_transition_witness:
  "routes (exampleDb PLANNED [wp 0 0, wp 0 1]) ''r1'' = Some (exampleRoute PLANNED [wp 0 0, wp 0 1]) \<and>
   storableDuration None \<and>
   (\<exists>route'. updateRouteStatus (exampleDb PLANNED [wp 0 0, wp 0 1]) 1 ''r1'' CANCELLED None =
                (Inr route', (exampleDb PLANNED [wp 0 0, wp 0 1])
                   \<lparr>routes := (routes (exampleDb PLANNED [wp 0 0, wp 0 1]))(''r1'' \<mapsto> route')\<rparr>) \<and>
              route_status route' = CANCELLED)"
proof -
  have a: "routes (exampleDb PLANNED [wp 0 0, wp 0 1]) ''r1'' = Some (exampleRoute PLANNED [wp 0 0, wp 0 1])"
    by (simp add: exampleDb_def)
  have b: "storableDuration None" by simp
  from updateRouteStatus_any_transition [OF a b, of 1 CANCELLED] a b
  show ?thesis by blast
qed

text \<open>
  Claim C9 as stated, that every provided non-negative duration is recorded, fails: with a
  provided 0 the stored duration stays absent, and with a provided 0.5, which the
  \<^verbatim>\<open>Int\<close> column cannot hold, the update fails and nothing is recorded.
\<close>
theorem updateRouteStatus_zero_duration_counterexample:
  "map_option route_actualDuration
     (routes (snd (updateRouteStatus (exampleDb IN_PROGRESS [wp 0 0, wp 0 1]) 1 ''r1'' COMPLETED
                     (Some (Num 0))))
        ''r1'')
     = Some None \<and>
   map_sum id route_actualDuration
     (fst (updateRouteStatus (exampleDb IN_PROGRESS [wp 0 0, wp 0 1]) 1 ''r1'' COMPLETED
             (Some (Num 0))))
     \<noteq> Inr (Some 0) \<and>
   updateRouteStatus (exampleDb IN_PROGRESS [wp 0 0, wp 0 1]) 1 ''r1'' COMPLETED
     (Some (Num (1 / 2)))
     = (Inl (createError ''Failed to update route status'' 500),
        exampleDb IN_PROGRESS [wp 0 0, wp 0 1])"
  by (simp add: updateRouteStatus_def route_update_def exampleDb_def exampleRoute_def Let_def
      validData_def noData_def applyData_def)

text \<open>
  Claim C9, amended: for every persisted route and every provided \<open>actualDuration\<close> that
  is a positive whole number the \<^verbatim>\<open>Int\<close> column holds, \<open>updateRouteStatus\<close> records
  that value on the persisted route and returns it; a provided 0 is treated as not
  provided and leaves the stored value as it was.
\<close>
theorem updateRouteStatus_records_positive_duration:
  assumes "routes db routeId = Some route" and "0 < n" and "n \<le> 2147483647"
  shows "map_option route_actualDuration
           (routes (snd (updateRouteStatus db now routeId status (Some (Num (of_int n)))))
              routeId)
           = Some (Some n) \<and>
         map_sum id route_actualDuration
           (fst (updateRouteStatus db now routeId status (Some (Num (of_int n)))))
           = Inr (Some n) \<and>
         map_option route_actualDuration
           (routes (snd (updateRouteStatus db now routeId status (Some (Num 0)))) routeId)
           = Some (route_actualDuration route)"
proof -
  from assms(2,3) have "storableDuration (Some (Num (of_int n)))" by simp
  from updateRouteStatus_found [OF assms(1) this, of now status] assms(2)
  have a: "map_option route_actualDuration
           (routes (snd (updateRouteStatus db now routeId status (Some (Num (of_int n)))))
              routeId)
           = Some (Some n) \<and>
         map_sum id route_actualDuration
           (fst (updateRouteStatus db now routeId status (Some (Num (of_int n)))))
           = Inr (Some n)"
    by (simp add: Let_def)
  have "storableDuration (Some (Num 0))" by simp
  from updateRouteStatus_found [OF assms(1) this, of now status]
  have "map_option route_actualDuration
           (routes (snd (updateRouteStatus db now routeId status (Some (Num 0)))) routeId)
           = Some (route_actualDuration route)"
    by (simp add: Let_def)
  with a show ?thesis by blast
qed

theorem updateRouteStatus_records_positive_duration_witness:
  "routes (exampleDb IN_PROGRESS [wp 0 0, wp 0 1]) ''r1'' = Some (exampleRoute IN_PROGRESS [wp 0 0, wp 0 1]) \<and>
   (0::int) < 95 \<and> (95::int) \<le> 2147483647 \<and>
   map_option route_actualDuration
     (routes (snd (updateRouteStatus (exampleDb IN_PROGRESS [wp 0 0, wp 0 1]) 1 ''r1'' COMPLETED
                     (Some (Num (of_int 95)))))
        ''r1'')
     = Some (Some 95) \<and>
   map_sum id route_actualDuration
     (fst (updateRouteStatus (exampleDb IN_PROGRESS [wp 0 0, wp 0 1]) 1 ''r1'' COMPLETED
             (Some (Num (of_int 95)))))
     = Inr (Some 95) \<and>
   map_option route_actualDuration
     (routes (snd (updateRouteStatus (exampleDb IN_PROGRESS [wp 0 0, wp 0 1]) 1 ''r1'' COMPLETED
                     (Some (Num 0))))
        ''r1'')
     = Some (route_actualDuration (exampleRoute IN_PROGRESS [wp 0 0, wp 0 1]))"
proof -
  have a: "routes (exampleDb IN_PROGRESS [wp 0 0, wp 0 1]) ''r1'' = Some (exampleRoute IN_PROGRESS [wp 0 0, wp 0 1])"
    by (simp add: exampleDb_def)
  have b: "(0::int) < 95" and c: "(95::int) \<le> 2147483647" by simp_all
  from updateRouteStatus_records_positive_duration [OF a b c, of 1 COMPLETED] a b c
  show ?thesis by blast
qed

subsection \<open>Recalculation\<close>

lemma closestLoop_nearestLoop:
  "closestLoop fl ps c i (k, d) = snd (nearestLoop fl c ps i (n, k, d))"
proof (induction fl c ps i "(n, k, d)" arbitrary: n k d rule: nearestLoop.induct)
  case (1 fl current unvisited i nearest nearestIndex minDistance)
  show ?case
  proof (cases "i < length unvisited")
    case False
    then show ?thesis
      by (simp add: nearestLoop.simps [of fl current unvisited i]
          closestLoop.simps [of fl unvisited current i])
  next
    case True
    show ?thesis
    proof (cases "js_lt (calculateDistance fl current (unvisited ! i)) minDistance")
      case lt: True
      with True "1.hyps"(1) [OF True refl lt] show ?thesis
        by (simp add: nearestLoop.simps [of fl current unvisited i]
            closestLoop.simps [of fl unvisited current i])
    next
      case ge: False
      with True "1.hyps"(2) [OF True refl ge] show ?thesis
        by (simp add: nearestLoop.simps [of fl current unvisited i]
            closestLoop.simps [of fl unvisited current i])
    qed
  qed
qed

lemma getRemainingWaypoints_closest:
  assumes "nearestFirst fl c ps k"
  shows "getRemainingWaypoints fl ps c = Inr (drop (k + 1) ps)"
proof -
  from selectNearest_of_nearestFirst [OF assms] obtain d where
    sel: "selectNearest fl c ps = (ps ! k, k, d)" by blast
  from assms obtain p rest where ps: "ps = p # rest" by (cases ps) (auto simp: nearestFirst_def)
  have "closestLoop fl ps c 1 (0, calculateDistance fl c (ps ! 0)) = (k, d)"
    using sel closestLoop_nearestLoop [of fl ps c 1 0 "calculateDistance fl c (ps ! 0)" "ps ! 0"]
    by (simp add: selectNearest_def)
  then show ?thesis
    by (simp add: getRemainingWaypoints_def ps)
qed

lemma recalculateRoute_try_final_point:
  assumes "routes db routeId = Some route"
    and "route_optimizedPath route \<noteq> []"
    and "nearestFirst fl currentLocation (route_optimizedPath route)
           (length (route_optimizedPath route) - 1)"
  shows "recalculateRoute_try fl env db now routeId currentLocation =
           Inl (createError ''Route already completed'' 400)"
proof -
  from getRemainingWaypoints_closest [OF assms(3)] assms(2)
  have "getRemainingWaypoints fl (route_optimizedPath route) currentLocation = Inr []"
    by simp
  with assms(1) show ?thesis
    by (simp add: recalculateRoute_try_def getRouteById_def)
qed

text \<open>
  Claim C3: when the closest point of the stored path (minimum distance, ties to the
  lowest index) is its final point, \<open>recalculateRoute\<close> fails and leaves the store
  unchanged, and the failure is claimed to reach the caller as the condition
  \<open>Route already completed\<close>. The first two hold. The third does not: the error raised
  inside the \<^verbatim>\<open>try\<close> block is caught by the function's own \<^verbatim>\<open>catch\<close>, and the
  caller receives \<open>Failed to recalculate route\<close> with status 500.
\<close>
theorem recalculateRoute_final_point_generic_error:
  assumes "routes db routeId = Some route"
    and "route_optimizedPath route \<noteq> []"
    and "nearestFirst fl currentLocation (route_optimizedPath route)
           (length (route_optimizedPath route) - 1)"
  shows "recalculateRoute fl env db now routeId currentLocation =
           (Inl (createError ''Failed to recalculate route'' 500), db) \<and>
         fst (recalculateRoute fl env db now routeId currentLocation) \<noteq>
           Inl (createError ''Route already completed'' 400)"
  using recalculateRoute_try_final_point [OF assms]
  by (simp add: recalculateRoute_def createError_def)

lemma nearestFirst_example: "nearestFirst exactFpu (wp 0 1) [wp 0 0, wp 0 1] 1"
proof -
  have "calculateDistance exactFpu (wp 0 1) (wp 0 0) = Num (6371 * pi / 180)"
    using calculateDistance_exact_equator_west [of "wp 0 1" "wp 0 0"] by (simp add: wp_def)
  then show ?thesis
    by (simp add: nearestFirst_def calculateDistance_exact_self js_le_def js_eq_def)
qed

theorem recalculateRoute_final_point_generic_error_witness:
  "routes (exampleDb IN_PROGRESS [wp 0 0, wp 0 1]) ''r1'' =
     Some (exampleRoute IN_PROGRESS [wp 0 0, wp 0 1]) \<and>
   route_optimizedPath (exampleRoute IN_PROGRESS [wp 0 0, wp 0 1]) \<noteq> [] \<and>
   nearestFirst exactFpu (wp 0 1) (route_optimizedPath (exampleRoute IN_PROGRESS [wp 0 0, wp 0 1]))
     (length (route_optimizedPath (exampleRoute IN_PROGRESS [wp 0 0, wp 0 1])) - 1) \<and>
   recalculateRoute exactFpu fallbackEnv (exampleDb IN_PROGRESS [wp 0 0, wp 0 1]) 1 ''r1'' (wp 0 1) =
     (Inl (createError ''Failed to recalculate route'' 500), exampleDb IN_PROGRESS [wp 0 0, wp 0 1]) \<and>
   fst (recalculateRoute exactFpu fallbackEnv (exampleDb IN_PROGRESS [wp 0 0, wp 0 1]) 1 ''r1'' (wp 0 1)) \<noteq>
     Inl (createError ''Route already completed'' 400)"
proof -
  have a: "routes (exampleDb IN_PROGRESS [wp 0 0, wp 0 1]) ''r1'' =
     Some (exampleRoute IN_PROGRESS [wp 0 0, wp 0 1])"
    by (simp add: exampleDb_def)
  have b: "route_optimizedPath (exampleRoute IN_PROGRESS [wp 0 0, wp 0 1]) \<noteq> []"
    by (simp add: exampleRoute_def)
  have c: "nearestFirst exactFpu (wp 0 1) (route_optimizedPath (exampleRoute IN_PROGRESS [wp 0 0, wp 0 1]))
     (length (route_optimizedPath (exampleRoute IN_PROGRESS [wp 0 0, wp 0 1])) - 1)"
    using nearestFirst_example by (simp add: exampleRoute_def)
  from recalculateRoute_final_point_generic_error [OF a b c, of fallbackEnv 1] a b c
  show ?thesis by blast
qed

subsection \<open>Progress tracking\<close>

lemma js_le_trans: "js_le x y \<Longrightarrow> js_le y z \<Longrightarrow> js_le x z"
  by (cases x; cases y; cases z; auto simp: js_le_def js_eq_def)

lemma js_min2_cases:
  assumes "x \<noteq> NaN" and "y \<noteq> NaN"
  shows "js_min2 x y \<noteq> NaN \<and> js_le (js_min2 x y) x \<and> js_le (js_min2 x y) y \<and>
         (js_min2 x y = x \<or> js_min2 x y = y)"
  using assms js_not_lt [of y x]
  by (auto simp: js_min2_def js_le_refl js_lt_imp_le)

lemma foldl_js_min2:
  assumes "acc \<noteq> NaN" and "\<forall>x \<in> set xs. x \<noteq> NaN"
  shows "foldl js_min2 acc xs \<noteq> NaN \<and> js_le (foldl js_min2 acc xs) acc \<and>
         (\<forall>x \<in> set xs. js_le (foldl js_min2 acc xs) x) \<and>
         (foldl js_min2 acc xs = acc \<or> foldl js_min2 acc xs \<in> set xs)"
  using assms
proof (induction xs arbitrary: acc)
  case Nil
  then show ?case by (simp add: js_le_refl)
next
  case (Cons x xs)
  from Cons.prems have x: "x \<noteq> NaN" and xs: "\<forall>y \<in> set xs. y \<noteq> NaN" by simp_all
  note m = js_min2_cases [OF Cons.prems(1) x]
  from m have m0: "js_min2 acc x \<noteq> NaN" by simp
  note ih = Cons.IH [OF m0 xs]
  let ?r = "foldl js_min2 (js_min2 acc x) xs"
  have "js_le ?r acc" using ih m by (blast intro: js_le_trans)
  moreover have "js_le ?r x" using ih m by (blast intro: js_le_trans)
  moreover have "?r = acc \<or> ?r \<in> set (x # xs)" using ih m by auto
  ultimately show ?case using ih by simp
qed

lemma mathMin_least:
  assumes "ds \<noteq> []" and "\<forall>x \<in> set ds. x \<noteq> NaN"
  shows "mathMin ds \<in> set ds \<and> (\<forall>x \<in> set ds. js_le (mathMin ds) x)"
proof -
  note f = foldl_js_min2 [of PosInf ds, OF _ assms(2)]
  have le: "\<forall>x \<in> set ds. js_le (mathMin ds) x" using f by (simp add: mathMin_def)
  have "mathMin ds \<in> set ds"
  proof (cases "mathMin ds = PosInf")
    case False
    with f show ?thesis by (simp add: mathMin_def)
  next
    case True
    from assms(1) obtain x where x: "x \<in> set ds" by (cases ds) auto
    with le True have "js_le PosInf x" by simp
    then have "x = PosInf" by (cases x) (simp_all add: js_le_def js_eq_def)
    with x True show ?thesis by simp
  qed
  with le show ?thesis by simp
qed

lemma indexOfFrom_first:
  assumes "k < length xs" and "js_eq (xs ! k) v" and "\<forall>j<k. \<not> js_eq (xs ! j) v"
  shows "indexOfFrom xs v i = int (i + k)"
  using assms
proof (induction xs arbitrary: k i)
  case Nil
  then show ?case by simp
next
  case (Cons x xs)
  show ?case
  proof (cases k)
    case 0
    with Cons.prems show ?thesis by simp
  next
    case (Suc k')
    with Cons.prems have "\<not> js_eq x v" by auto
    moreover from Suc Cons.prems have "indexOfFrom xs v (i + 1) = int (i + 1 + k')"
      by (intro Cons.IH) auto
    ultimately show ?thesis using Suc by simp
  qed
qed

lemma indexOf_min:
  assumes "ds \<noteq> []" and "\<forall>x \<in> set ds. x \<noteq> NaN"
  shows "\<exists>k<length ds. (\<forall>j<length ds. js_le (ds ! k) (ds ! j)) \<and> (\<forall>j<k. js_lt (ds ! k) (ds ! j)) \<and>
           indexOf ds (mathMin ds) = int k"
proof -
  define m where "m = mathMin ds"
  from mathMin_least [OF assms] have min: "m \<in> set ds" and le': "\<forall>x \<in> set ds. js_le m x"
    by (simp_all add: m_def)
  from min assms(2) have mn: "m \<noteq> NaN" by blast
  from min have ex: "\<exists>k. k < length ds \<and> ds ! k = m" by (auto simp: in_set_conv_nth)
  define k where "k = (LEAST k. k < length ds \<and> ds ! k = m)"
  from LeastI_ex [OF ex] have k: "k < length ds" "ds ! k = m" by (simp_all add: k_def)
  have least: "ds ! j \<noteq> m" if "j < k" for j
  proof
    assume "ds ! j = m"
    with that k(1) have "j < length ds \<and> ds ! j = m" by simp
    then have "k \<le> j" unfolding k_def by (rule Least_le)
    with that show False by simp
  qed
  have le: "js_le m (ds ! j)" if "j < length ds" for j
    using that le' by simp
  have lt: "\<forall>j<k. js_lt (ds ! k) (ds ! j)"
  proof (intro allI impI)
    fix j assume j: "j < k"
    with k(1) have "js_le m (ds ! j)" by (intro le) simp
    moreover from j have "m \<noteq> ds ! j" using least by blast
    ultimately show "js_lt (ds ! k) (ds ! j)" unfolding k(2) by (rule js_le_neq_lt)
  qed
  have all: "\<forall>j<length ds. js_le (ds ! k) (ds ! j)"
    unfolding k(2) using le by blast
  have "\<forall>j<k. \<not> js_eq (ds ! j) m" using least by (auto simp: js_eq_def)
  moreover have "js_eq (ds ! k) m" using k(2) mn by (simp add: js_eq_def)
  ultimately have "indexOfFrom ds m 0 = int (0 + k)"
    using k(1) by (intro indexOfFrom_first) auto
  then have idx: "indexOf ds (mathMin ds) = int k"
    by (simp add: indexOf_def m_def)
  show ?thesis
  proof (intro exI conjI)
    show "k < length ds" by (rule k(1))
  qed (rule all lt idx)+
qed

text \<open>
  On a path whose distances from the tracked location are all numbers the progress is
  computed at the closest point's index, ties to the lowest: the quotient by the number
  of segments, times 100, rounded to the nearest integer.
\<close>

lemma computeProgress_formula:
  assumes "routePath \<noteq> []"
    and "\<forall>q \<in> set routePath. calculateDistance fl (locationWaypoint location) q \<noteq> NaN"
  shows "\<exists>k. nearestFirst fl (locationWaypoint location) routePath k \<and>
             computeProgress fl (Some location) routePath =
               js_round (js_mul fl (js_div fl (Num (real k)) (Num (real (length routePath) - 1)))
                                   (Num 100))"
proof -
  define ds where "ds = map (trackingDistance fl location) routePath"
  from assms(1) have ne: "ds \<noteq> []" by (simp add: ds_def)
  from assms(2) have nn: "\<forall>x \<in> set ds. x \<noteq> NaN"
    by (auto simp: ds_def trackingDistance_calculateDistance)
  obtain k where k: "k < length ds" "\<forall>j<length ds. js_le (ds ! k) (ds ! j)"
    "\<forall>j<k. js_lt (ds ! k) (ds ! j)" "indexOf ds (mathMin ds) = int k"
    using indexOf_min [OF ne nn] by blast
  have len: "length ds = length routePath" by (simp add: ds_def)
  have nth: "ds ! j = calculateDistance fl (locationWaypoint location) (routePath ! j)"
    if "j < length routePath" for j
    using that by (simp add: ds_def trackingDistance_calculateDistance)
  have "nearestFirst fl (locationWaypoint location) routePath k"
    unfolding nearestFirst_def
  proof (intro conjI ballI)
    show "k < length routePath" using k(1) len by simp
  next
    fix q assume "q \<in> set routePath"
    then obtain j where j: "j < length routePath" "routePath ! j = q"
      by (auto simp: in_set_conv_nth)
    with k(1,2) len nth [of j] nth [of k]
    show "js_le (calculateDistance fl (locationWaypoint location) (routePath ! k))
                (calculateDistance fl (locationWaypoint location) q)" by auto
  next
    fix q assume "q \<in> set (take k routePath)"
    then obtain j where j: "j < k" "routePath ! j = q"
      using k(1) len by (auto simp: in_set_conv_nth)
    with k(1,3) len nth [of j] nth [of k]
    show "js_lt (calculateDistance fl (locationWaypoint location) (routePath ! k))
                (calculateDistance fl (locationWaypoint location) q)" by auto
  qed
  moreover have "computeProgress fl (Some location) routePath =
               js_round (js_mul fl (js_div fl (Num (real k)) (Num (real (length routePath) - 1)))
                                   (Num 100))"
    using k(4) assms(1) by (simp add: computeProgress_def Let_def ds_def)
  ultimately show ?thesis by blast
qed

lemma mathMin_single: "mathMin [d] = d"
  by (cases d) (simp_all add: mathMin_def js_min2_def)

lemma computeProgress_single:
  "computeProgress fl (Some location) [p] =
     (if trackingDistance fl location p = NaN then NegInf else NaN)"
  by (simp add: computeProgress_def indexOf_def Let_def mathMin_single js_eq_def)

lemma computeProgress_no_location: "computeProgress fl None routePath = Num 0"
  by (simp add: computeProgress_def)

text \<open>
  Claim C2: the progress is \<open>round (index / (pathLength - 1) * 100)\<close> at the closest
  point's index (\<open>computeProgress_formula\<close>), and on a path of exactly one point it is
  claimed to be 100. There the handler divides by 0: the progress is \<^verbatim>\<open>NaN\<close>, from
  \<^verbatim>\<open>0 / 0\<close>, and with it the remaining time; when the one distance is itself
  \<^verbatim>\<open>NaN\<close> the index is \<open>-1\<close> and the progress is negative infinity. It is never
  100.
\<close>
theorem trackingHandler_single_point_progress:
  assumes "routes db routeId = Some route"
    and "route_optimizedPath route = [p]"
    and "latestTracking db route = Some location"
  shows "map_sum id data_progress (trackingHandler fl db routeId) =
           Inr (if trackingDistance fl location p = NaN then NegInf else NaN) \<and>
         map_sum id data_progress (trackingHandler fl db routeId) \<noteq> Inr (Num 100) \<and>
         (trackingDistance fl location p \<noteq> NaN \<longrightarrow>
            map_sum id data_estimatedTimeRemaining (trackingHandler fl db routeId) = Inr NaN)"
  using assms
  by (simp add: trackingHandler_def getRouteById_def Let_def computeProgress_single)

lemma trackingDistance_example:
  "trackingDistance exactFpu
     \<lparr>tracking_transporterId = ''t1'', tracking_orderId = Some ''o1'',
      tracking_latitude = 0, tracking_longitude = 0, tracking_timestamp = 5\<rparr> (wp 0 0) = Num 0"
  by (simp add: trackingDistance_calculateDistance locationWaypoint_def
      calculateDistance_exact_self)

theorem trackingHandler_single_point_progress_witness:
  "routes (exampleDb IN_PROGRESS [wp 0 0]) ''r1'' = Some (exampleRoute IN_PROGRESS [wp 0 0]) \<and>
   route_optimizedPath (exampleRoute IN_PROGRESS [wp 0 0]) = [wp 0 0] \<and>
   latestTracking (exampleDb IN_PROGRESS [wp 0 0]) (exampleRoute IN_PROGRESS [wp 0 0]) =
     Some \<lparr>tracking_transporterId = ''t1'', tracking_orderId = Some ''o1'',
           tracking_latitude = 0, tracking_longitude = 0, tracking_timestamp = 5\<rparr> \<and>
   trackingDistance exactFpu
     \<lparr>tracking_transporterId = ''t1'', tracking_orderId = Some ''o1'',
      tracking_latitude = 0, tracking_longitude = 0, tracking_timestamp = 5\<rparr> (wp 0 0) \<noteq> NaN \<and>
   map_sum id data_progress (trackingHandler exactFpu (exampleDb IN_PROGRESS [wp 0 0]) ''r1'')
     = Inr NaN \<and>
   map_sum id data_progress (trackingHandler exactFpu (exampleDb IN_PROGRESS [wp 0 0]) ''r1'')
     \<noteq> Inr (Num 100) \<and>
   map_sum id data_estimatedTimeRemaining
     (trackingHandler exactFpu (exampleDb IN_PROGRESS [wp 0 0]) ''r1'')
     = Inr NaN"
proof -
  have a: "routes (exampleDb IN_PROGRESS [wp 0 0]) ''r1'' = Some (exampleRoute IN_PROGRESS [wp 0 0])"
    by (simp add: exampleDb_def)
  have b: "route_optimizedPath (exampleRoute IN_PROGRESS [wp 0 0]) = [wp 0 0]"
    by (simp add: exampleRoute_def)
  have c: "latestTracking (exampleDb IN_PROGRESS [wp 0 0]) (exampleRoute IN_PROGRESS [wp 0 0]) =
     Some \<lparr>tracking_transporterId = ''t1'', tracking_orderId = Some ''o1'',
           tracking_latitude = 0, tracking_longitude = 0, tracking_timestamp = 5\<rparr>"
    by (simp add: latestTracking_def exampleDb_def exampleRoute_def)
  have d: "trackingDistance exactFpu
     \<lparr>tracking_transporterId = ''t1'', tracking_orderId = Some ''o1'',
      tracking_latitude = 0, tracking_longitude = 0, tracking_timestamp = 5\<rparr> (wp 0 0) \<noteq> NaN"
    by (simp add: trackingDistance_example)
  from trackingHandler_single_point_progress [OF a b c, of exactFpu] a b c d
  show ?thesis by (simp add: trackingDistance_example)
qed

end
